theory Spec2Isabelle
  imports Complex_Main
begin

section \<open>Budgeted Fitted-Q iteration: a model of \<open>budgeted_ftq/bftq.py\<close>\<close>

text \<open>
  The class \<open>BudgetedFittedQ\<close> is modelled method by method. Scalars are real numbers,
  a one-dimensional tensor is a list of reals, a batch tensor is the list of its rows;
  operations that only change the layout of a tensor (\<open>unsqueeze\<close>, \<open>to\<close>) are not
  modelled, \<open>squeeze\<close>, \<open>repeat\<close> and \<open>view\<close> are where \<open>compute_next_values\<close>
  builds its batch with them. The object \<open>self\<close> is a record; a method is
  a function from the object to an outcome (a result or a raised exception) and the
  object as the method leaves it, so that what a method mutates is visible in its
  second component also when it raises. A batch tensor has rows of one length. The
  value network, the loss and optimizer factories, \<open>near_split\<close>,
  \<open>compute_convex_hull_from_values\<close>, \<open>optimal_mixture\<close> and the builtin \<open>eval\<close> are
  defined outside the file and are parameters of the model (the record
  \<open>externals\<close>).
\<close>

subsection \<open>Exceptions and dynamically typed values\<close>

datatype error =
    TypeError | ValueError | AttributeError | IndexError | RuntimeError
  | SyntaxError | NameError

text \<open>A configuration value, or the value of an evaluated configuration expression.\<close>

datatype pyval =
    PNone
  | PNum real
  | PStr string
  | PList "pyval list"
  | PArray "real list"

text \<open>Truth value of an object, as \<open>if x:\<close> tests it. A numpy array of more than one
  element has no truth value.\<close>

fun py_truthy :: "pyval \<Rightarrow> error + bool" where
  "py_truthy PNone = Inr False"
| "py_truthy (PNum x) = Inr (x \<noteq> 0)"
| "py_truthy (PStr s) = Inr (s \<noteq> [])"
| "py_truthy (PList xs) = Inr (xs \<noteq> [])"
| "py_truthy (PArray []) = Inr False"
| "py_truthy (PArray [x]) = Inr (x \<noteq> 0)"
| "py_truthy (PArray (x # y # ys)) = Inl ValueError"

text \<open>The elements a \<open>for\<close> loop over the object visits.\<close>

fun py_iter :: "pyval \<Rightarrow> error + pyval list" where
  "py_iter (PList xs) = Inr xs"
| "py_iter (PArray xs) = Inr (map PNum xs)"
| "py_iter (PStr s) = Inr (map (\<lambda>c. PStr [c]) s)"
| "py_iter PNone = Inl TypeError"
| "py_iter (PNum x) = Inl TypeError"

fun py_len :: "pyval \<Rightarrow> error + nat" where
  "py_len (PList xs) = Inr (length xs)"
| "py_len (PArray xs) = Inr (length xs)"
| "py_len (PStr s) = Inr (length s)"
| "py_len PNone = Inl TypeError"
| "py_len (PNum x) = Inl TypeError"

text \<open>\<open>torch.tensor([[[v]]], dtype=torch.float)\<close> for a budget \<open>v\<close>: only a number is
  modelled as accepted.\<close>

fun budget_tensor :: "pyval \<Rightarrow> error + real" where
  "budget_tensor (PNum x) = Inr x"
| "budget_tensor v = Inl TypeError"

text \<open>\<open>torch.tensor([[[beta_d * beta]]], dtype=torch.float)\<close> for a number \<open>beta\<close>:
  only the product of two numbers is modelled as accepted.\<close>

fun scaled_budget_tensor :: "pyval \<Rightarrow> real \<Rightarrow> error + real" where
  "scaled_budget_tensor (PNum x) b = Inr (x * b)"
| "scaled_budget_tensor v b = Inl TypeError"

subsection \<open>Methods: outcome and object\<close>

type_synonym ('a, 's) py_method = "'s \<Rightarrow> (error + 'a) \<times> 's"

definition liftM :: "error + 'a \<Rightarrow> ('a, 's) py_method" where
  "liftM r = (\<lambda>s. (r, s))"

definition returnM :: "'a \<Rightarrow> ('a, 's) py_method" where
  "returnM x = liftM (Inr x)"

definition raiseM :: "error \<Rightarrow> ('a, 's) py_method" where
  "raiseM e = liftM (Inl e)"

definition bindM :: "('a, 's) py_method \<Rightarrow> ('a \<Rightarrow> ('b, 's) py_method) \<Rightarrow> ('b, 's) py_method" where
  "bindM m f = (\<lambda>s. case m s of (Inl e, s') \<Rightarrow> (Inl e, s') | (Inr x, s') \<Rightarrow> f x s')"

definition getsM :: "('s \<Rightarrow> 'a) \<Rightarrow> ('a, 's) py_method" where
  "getsM f = (\<lambda>s. (Inr (f s), s))"

definition modifyM :: "('s \<Rightarrow> 's) \<Rightarrow> (unit, 's) py_method" where
  "modifyM f = (\<lambda>s. (Inr (), f s))"

text \<open>A \<open>for\<close> loop over a list whose body returns nothing.\<close>

fun for_each :: "('x \<Rightarrow> (unit, 's) py_method) \<Rightarrow> 'x list \<Rightarrow> (unit, 's) py_method" where
  "for_each f [] = returnM ()"
| "for_each f (x # xs) = bindM (f x) (\<lambda>_. for_each f xs)"

text \<open>A list comprehension, or an order-preserving \<open>starmap\<close>, whose element function
  may raise: the first exception in list order is the outcome.\<close>

fun map_err :: "('a \<Rightarrow> error + 'b) \<Rightarrow> 'a list \<Rightarrow> error + 'b list" where
  "map_err f [] = Inr []"
| "map_err f (x # xs) =
     (case f x of Inl e \<Rightarrow> Inl e
      | Inr y \<Rightarrow> (case map_err f xs of Inl e \<Rightarrow> Inl e | Inr ys \<Rightarrow> Inr (y # ys)))"

subsection \<open>Data\<close>

text \<open>The fields of \<open>TransitionBFTQ\<close> as \<open>_zip_batch\<close> reads them.\<close>

record TransitionBFTQ =
  state :: "real list"
  action :: nat
  reward :: real
  next_state :: "real list"
  terminal :: bool
  cost :: real
  beta :: real

text \<open>An element of a hull and a mixture, with the fields that
  \<open>constrained_next_values\<close> reads (\<open>mix.inf\<close>, \<open>mix.sup\<close>, \<open>mix.probability_sup\<close>,
  \<open>qr\<close>, \<open>qc\<close>).\<close>

record ValuePoint =
  vp_budget :: real
  vp_action :: nat
  qr :: real
  qc :: real

type_synonym value_hull = "ValuePoint list"

record Mixture =
  mix_inf :: ValuePoint
  mix_sup :: ValuePoint
  probability_sup :: real

text \<open>The keys of \<open>config\<close> that the class reads.\<close>

record config =
  cfg_betas_for_duplication :: pyval
  cfg_betas_for_discretisation :: pyval
  cfg_loss_function :: string
  cfg_loss_function_c :: string
  cfg_device :: string
  cfg_max_ftq_epochs :: int
  cfg_delta_stop :: real
  cfg_gamma :: real
  cfg_gamma_c :: real
  cfg_clamp_Qc :: "(real \<times> real) option"
  cfg_split_batches :: int
  cfg_hull_options :: pyval
  cfg_cpu_processes :: int
  cfg_reset_network_each_epoch :: bool
  cfg_max_nn_epoch :: int
  cfg_weights_losses :: "real \<times> real"
  cfg_optimizer_type :: string
  cfg_learning_rate :: real
  cfg_weight_decay :: real

type_synonym loss_fn = "real list \<Rightarrow> real list \<Rightarrow> real"

text \<open>The attributes of a \<open>BudgetedFittedQ\<close> object. \<open>memory\<close> is the list
  \<open>self.memory.memory\<close>.\<close>

record ('net, 'opt) bftq =
  config :: config
  betas_for_duplication :: pyval
  betas_for_discretisation :: pyval
  loss_function :: loss_fn
  loss_function_c :: loss_fn
  device :: string
  value_network :: 'net
  n_actions :: nat
  memory :: "TransitionBFTQ list"
  optimizer :: "'opt option"
  epoch :: nat
  size_batch :: "nat option"

text \<open>What the objects passed to \<open>compute_all_optimal_mixtures\<close> and to
  \<open>optimal_mixture\<close> can be: the tuple of hulls, one hull, an element of a hull, a tensor
  of budgets, a Python float.\<close>

datatype pyarg =
    HullTuple "value_hull list"
  | HullObj value_hull
  | PointObj ValuePoint
  | TensorObj "real list"
  | FloatObj real

text \<open>The collaborators defined outside the file. \<open>py_eval\<close> is the builtin \<open>eval\<close>
  on any object; \<open>forward\<close> is a call of the network on a batch of rows and gives one
  row of values per row; \<open>size_state\<close> is the attribute of that name of the network.\<close>

record ('net, 'opt) externals =
  py_eval :: "pyval \<Rightarrow> error + pyval"
  loss_function_factory :: "string \<Rightarrow> error + loss_fn"
  optimizer_factory :: "string \<Rightarrow> 'net \<Rightarrow> real \<Rightarrow> real \<Rightarrow> error + 'opt"
  predict_out_features :: "'net \<Rightarrow> nat"
  forward :: "'net \<Rightarrow> real list list \<Rightarrow> real list list"
  size_state :: "'net \<Rightarrow> nat"
  set_normalization_params :: "'net \<Rightarrow> real list \<Rightarrow> real list \<Rightarrow> 'net"
  net_reset :: "'net \<Rightarrow> 'net"
  tensor_mean :: "real list list \<Rightarrow> real list"
  tensor_std :: "real list list \<Rightarrow> real list"
  loss_backward :: "('net \<Rightarrow> error + real) \<Rightarrow> 'net \<Rightarrow> real list list"
  optimizer_step :: "'opt \<Rightarrow> 'net \<Rightarrow> real list list \<Rightarrow> 'opt \<times> 'net"
  near_split :: "nat \<Rightarrow> int \<Rightarrow> nat list"
  compute_convex_hull_from_values ::
    "real list list \<Rightarrow> pyval \<Rightarrow> pyval \<Rightarrow> (real \<times> real) option \<Rightarrow> error + value_hull"
  optimal_mixture :: "pyarg \<Rightarrow> pyarg \<Rightarrow> error + Mixture"

subsection \<open>\<open>push\<close>\<close>

text \<open>Modelled from the spec: \<open>ReplayMemory\<close> is not in the file; the Transition Store
  of the spec holds an ordered sequence of transitions and \<open>push\<close> adds one at its
  end.\<close>

definition memory_push ::
  "real list \<Rightarrow> nat \<Rightarrow> real \<Rightarrow> real list \<Rightarrow> bool \<Rightarrow> real \<Rightarrow> real
     \<Rightarrow> (unit, ('net, 'opt) bftq) py_method" where
  "memory_push s a r s' t c b =
     modifyM (\<lambda>self. self\<lparr>memory := memory self @
        [\<lparr>state = s, action = a, reward = r, next_state = s', terminal = t,
          cost = c, beta = b\<rparr>]\<rparr>)"

text \<open>\<open>if beta:\<close> for the optional budget of \<open>push\<close>: \<open>None\<close> and zero are false.\<close>

fun budget_truthy :: "real option \<Rightarrow> bool" where
  "budget_truthy None = False"
| "budget_truthy (Some b) = (b \<noteq> 0)"

definition push ::
  "real list \<Rightarrow> nat \<Rightarrow> real \<Rightarrow> real list \<Rightarrow> bool \<Rightarrow> real \<Rightarrow> real option
     \<Rightarrow> (unit, ('net, 'opt) bftq) py_method" where
  "push s a r s' t c b =
     bindM (getsM betas_for_duplication) (\<lambda>dup.
     bindM (liftM (py_truthy dup)) (\<lambda>augment.
       if augment then
         bindM (liftM (py_iter dup)) (\<lambda>beta_ds.
           for_each (\<lambda>beta_d.
             bindM (liftM (if budget_truthy b
                           then scaled_budget_tensor beta_d (the b)
                           else budget_tensor beta_d)) (\<lambda>beta_d'.
             memory_push s a r s' t c beta_d')) beta_ds)
       else
         bindM (liftM (case b of None \<Rightarrow> Inl TypeError | Some x \<Rightarrow> Inr x)) (\<lambda>b'.
         memory_push s a r s' t c b')))"

subsection \<open>Tensor operations\<close>

text \<open>The slice \<open>xs[a:b]\<close> for non-negative \<open>a\<close> and \<open>b\<close>.\<close>

definition py_slice :: "'a list \<Rightarrow> nat \<Rightarrow> nat \<Rightarrow> 'a list" where
  "py_slice xs a b = take (b - a) (drop a xs)"

text \<open>The tensor \<open>terminals\<close> is a tensor of booleans (\<open>torch.bool\<close>, as \<open>push\<close>
  builds it) or of bytes (\<open>torch.uint8\<close>, the entries read modulo 256).\<close>

datatype mask_tensor = BoolTensor "bool list" | ByteTensor "nat list"

text \<open>\<open>1 - t\<close>: the subtraction is not defined on a tensor of booleans and raises; on
  bytes it wraps around.\<close>

fun one_minus :: "mask_tensor \<Rightarrow> error + mask_tensor" where
  "one_minus (BoolTensor bs) = Inl RuntimeError"
| "one_minus (ByteTensor xs) = Inr (ByteTensor (map (\<lambda>x. (257 - x mod 256) mod 256) xs))"

text \<open>The positions that a tensor used as an index selects: the true entries, or the
  bytes that are not zero.\<close>

fun mask_bits :: "mask_tensor \<Rightarrow> bool list" where
  "mask_bits (BoolTensor bs) = bs"
| "mask_bits (ByteTensor xs) = map (\<lambda>x. x mod 256 \<noteq> 0) xs"

text \<open>\<open>xs[mask]\<close> for a boolean mask, which must have the length of \<open>xs\<close>.\<close>

definition mask_select :: "'a list \<Rightarrow> bool list \<Rightarrow> error + 'a list" where
  "mask_select xs sel =
     (if length sel = length xs then Inr (map fst (filter snd (zip xs sel)))
      else Inl IndexError)"

text \<open>\<open>xs[mask] = vals\<close>: the selected positions take the values in order.\<close>

fun scatter :: "'a list \<Rightarrow> bool list \<Rightarrow> 'a list \<Rightarrow> 'a list" where
  "scatter (x # xs) (True # ms) (v # vs) = v # scatter xs ms vs"
| "scatter (x # xs) (False # ms) vs = x # scatter xs ms vs"
| "scatter xs ms vs = xs"

definition mask_assign :: "'a list \<Rightarrow> bool list \<Rightarrow> 'a list \<Rightarrow> error + 'a list" where
  "mask_assign xs sel vals =
     (if length sel \<noteq> length xs then Inl IndexError
      else if length vals \<noteq> length (filter id sel) then Inl RuntimeError
      else Inr (scatter xs sel vals))"

text \<open>The sum of two one-dimensional tensors, with the broadcast of a tensor of one
  element.\<close>

definition tensor_add :: "real list \<Rightarrow> real list \<Rightarrow> error + real list" where
  "tensor_add xs ys =
     (if length xs = length ys then Inr (map2 (+) xs ys)
      else if length xs = 1 then Inr (map (\<lambda>y. hd xs + y) ys)
      else if length ys = 1 then Inr (map (\<lambda>x. x + hd ys) xs)
      else Inl RuntimeError)"

text \<open>\<open>torch.clamp(x, min=lo, max=hi)\<close> on one element.\<close>

definition clamp :: "real \<Rightarrow> real \<Rightarrow> real \<Rightarrow> real" where
  "clamp lo hi x = min (max x lo) hi"

text \<open>\<open>values.gather(1, index)\<close> with one index per row.\<close>

definition gather :: "real list list \<Rightarrow> nat list \<Rightarrow> error + real list" where
  "gather vals idx =
     (if length idx > length vals then Inl RuntimeError
      else map_err (\<lambda>(row, i). if i < length row then Inr (row ! i) else Inl RuntimeError)
             (zip vals idx))"

subsection \<open>\<open>compute_next_values\<close>\<close>

text \<open>\<open>torch.from_numpy\<close> accepts a numpy array only.\<close>

fun from_numpy :: "pyval \<Rightarrow> error + real list" where
  "from_numpy (PArray bs) = Inr bs"
| "from_numpy v = Inl TypeError"

text \<open>The entries, in row-major order, of \<open>next_states.squeeze().repeat((1, n_beta))\<close>
  for next states of shape \<open>(N, 1, S)\<close>. When \<open>S\<close> is not one (and \<open>N\<close> is not one)
  \<open>squeeze\<close> leaves the \<open>N\<close> states as rows and each row is repeated \<open>n_beta\<close> times.
  When \<open>S\<close> is one \<open>squeeze\<close> removes that dimension as well and the whole list of
  states is repeated \<open>n_beta\<close> times; for a single state both readings agree.\<close>

definition repeated_states :: "real list list \<Rightarrow> nat \<Rightarrow> real list" where
  "repeated_states next_states n_beta =
     (if list_all (\<lambda>s. length s = 1) next_states
      then concat (replicate n_beta (concat next_states))
      else concat (map (\<lambda>s. concat (replicate n_beta s)) next_states))"

text \<open>\<open>n\<close> rows of \<open>k\<close> entries, in order.\<close>

fun chunks :: "nat \<Rightarrow> nat \<Rightarrow> 'a list \<Rightarrow> 'a list list" where
  "chunks 0 k xs = []"
| "chunks (Suc n) k xs = take k xs # chunks n k (drop k xs)"

text \<open>\<open>t.view((n, k))\<close> of a contiguous tensor with the entries \<open>flat\<close>.\<close>

definition view_rows :: "'a list \<Rightarrow> nat \<Rightarrow> nat \<Rightarrow> error + 'a list list" where
  "view_rows flat n k = (if length flat = n * k then Inr (chunks n k flat) else Inl RuntimeError)"

text \<open>The rows of \<open>sb\<close>: the rows of \<open>ss\<close>, each with the entry of \<open>bb\<close> of the same
  position appended; \<open>bb\<close> is the grid repeated once per next state.\<close>

definition state_budget_batch :: "real list list \<Rightarrow> pyval \<Rightarrow> nat \<Rightarrow> error + real list list" where
  "state_budget_batch next_states grid size_st =
     (case py_len grid of
        Inl e \<Rightarrow> Inl e
      | Inr n_beta \<Rightarrow>
     (case view_rows (repeated_states next_states n_beta) (length next_states * n_beta) size_st of
        Inl e \<Rightarrow> Inl e
      | Inr ss \<Rightarrow>
     (case from_numpy grid of
        Inl e \<Rightarrow> Inl e
      | Inr bs \<Rightarrow>
          Inr (map2 (\<lambda>s b. s @ [b]) ss (concat (replicate (length next_states) bs))))))"

text \<open>The list \<open>q_values\<close> after the loop over the minibatches.\<close>

definition minibatch_values ::
  "('net, 'opt) externals \<Rightarrow> 'net \<Rightarrow> real list list \<Rightarrow> nat list \<Rightarrow> int
     \<Rightarrow> real list list list" where
  "minibatch_values E net sb batch_sizes split_batches =
     map (\<lambda>minibatch.
            forward E net
              (py_slice sb (sum_list (take minibatch batch_sizes))
                           (sum_list (take (minibatch + 1) batch_sizes))))
         [0..<nat split_batches]"

text \<open>\<open>torch.cat\<close> of a list of tensors raises on the empty list.\<close>

definition torch_cat :: "'a list list \<Rightarrow> error + 'a list" where
  "torch_cat ts = (if ts = [] then Inl RuntimeError else Inr (concat ts))"

definition compute_next_values ::
  "('net, 'opt) externals \<Rightarrow> real list list
     \<Rightarrow> (real list list, ('net, 'opt) bftq) py_method" where
  "compute_next_values E next_states =
     bindM (getsM betas_for_discretisation) (\<lambda>grid.
     bindM (getsM value_network) (\<lambda>net.
     bindM (liftM (state_budget_batch next_states grid (size_state E net))) (\<lambda>sb.
     bindM (getsM config) (\<lambda>cfg.
       let batch_sizes = near_split E (length sb) (cfg_split_batches cfg);
           q_values = minibatch_values E net sb batch_sizes (cfg_split_batches cfg)
       in liftM (torch_cat q_values)))))"

subsection \<open>\<open>compute_all_hulls\<close>\<close>

text \<open>\<open>starmap\<close> is taken as the order-preserving map it is; of the four components of
  a result of \<open>compute_convex_hull_from_values\<close> the hull alone is kept. Unpacking
  \<open>zip(*results)\<close> into four names raises when there is no result.\<close>

definition compute_all_hulls ::
  "('net, 'opt) externals \<Rightarrow> real list list \<Rightarrow> nat
     \<Rightarrow> (value_hull list, ('net, 'opt) bftq) py_method" where
  "compute_all_hulls E q_values states_count =
     bindM (getsM betas_for_discretisation) (\<lambda>grid.
     bindM (liftM (py_len grid)) (\<lambda>n_beta.
     bindM (getsM config) (\<lambda>cfg.
     bindM (liftM (map_err (\<lambda>state.
              compute_convex_hull_from_values E
                (py_slice q_values (state * n_beta) ((state + 1) * n_beta))
                grid (cfg_hull_options cfg) (cfg_clamp_Qc cfg))
              [0..<states_count])) (\<lambda>results.
       if results = [] then raiseM ValueError else returnM results))))"

subsection \<open>\<open>compute_all_optimal_mixtures\<close>\<close>

text \<open>The elements that iterating over an object yields; iterating over a point or a
  float is not modelled further than as a \<open>TypeError\<close>.\<close>

fun py_elements :: "pyarg \<Rightarrow> error + pyarg list" where
  "py_elements (HullTuple hs) = Inr (map HullObj hs)"
| "py_elements (HullObj h) = Inr (map PointObj h)"
| "py_elements (TensorObj xs) = Inr (map (\<lambda>x. TensorObj [x]) xs)"
| "py_elements (PointObj p) = Inl TypeError"
| "py_elements (FloatObj x) = Inl TypeError"

text \<open>\<open>x[i]\<close> for a non-negative index.\<close>

definition py_getitem :: "pyarg \<Rightarrow> nat \<Rightarrow> error + pyarg" where
  "py_getitem x i =
     (case py_elements x of
        Inl e \<Rightarrow> Inl e
      | Inr ys \<Rightarrow> if i < length ys then Inr (ys ! i) else Inl IndexError)"

text \<open>\<open>x.detach().item()\<close>: a tensor has the method \<open>detach\<close>, and \<open>item\<close> needs a
  tensor of one element; a tuple, a hull, a point and a float have no \<open>detach\<close>.\<close>

fun detach_item :: "pyarg \<Rightarrow> error + real" where
  "detach_item (TensorObj [x]) = Inr x"
| "detach_item (TensorObj xs) = Inl ValueError"
| "detach_item x = Inl AttributeError"

text \<open>The parameters are in the order of the source: \<open>b_batch\<close> first, \<open>hulls\<close>
  second.\<close>

definition compute_all_optimal_mixtures ::
  "('net, 'opt) externals \<Rightarrow> pyarg \<Rightarrow> pyarg
     \<Rightarrow> (Mixture list, ('net, 'opt) bftq) py_method" where
  "compute_all_optimal_mixtures E b_batch hulls =
     bindM (liftM (py_elements b_batch)) (\<lambda>items.
     bindM (liftM (map_err (\<lambda>(i, beta).
              case py_getitem hulls i of
                Inl e \<Rightarrow> Inl e
              | Inr h \<Rightarrow> (case detach_item beta of
                            Inl e \<Rightarrow> Inl e
                          | Inr x \<Rightarrow> Inr (h, FloatObj x)))
              (zip [0..<length items] items))) (\<lambda>args.
     liftM (map_err (\<lambda>(h, b). optimal_mixture E h b) args)))"

subsection \<open>\<open>constrained_next_values\<close>\<close>

definition mixture_reward :: "Mixture \<Rightarrow> real" where
  "mixture_reward mix =
     (1 - probability_sup mix) * qr (mix_inf mix) + probability_sup mix * qr (mix_sup mix)"

definition mixture_cost :: "Mixture \<Rightarrow> real" where
  "mixture_cost mix =
     (1 - probability_sup mix) * qc (mix_inf mix) + probability_sup mix * qc (mix_sup mix)"

text \<open>The loop \<open>for i, mix in enumerate(mixtures)\<close> that fills \<open>next_rewards_nf\<close> and
  \<open>next_costs_nf\<close>.\<close>

fun fill_expectations ::
  "(nat \<times> Mixture) list \<Rightarrow> real list \<times> real list \<Rightarrow> error + real list \<times> real list" where
  "fill_expectations [] acc = Inr acc"
| "fill_expectations ((i, mix) # rest) (next_rewards_nf, next_costs_nf) =
     (if i < length next_rewards_nf \<and> i < length next_costs_nf
      then fill_expectations rest
             (next_rewards_nf[i := mixture_reward mix], next_costs_nf[i := mixture_cost mix])
      else Inl IndexError)"

text \<open>\<open>t[1 - terminals] = vals\<close>.\<close>

definition assign_non_terminal ::
  "real list \<Rightarrow> mask_tensor \<Rightarrow> real list \<Rightarrow> error + real list" where
  "assign_non_terminal t terminals vals =
     (case one_minus terminals of
        Inl e \<Rightarrow> Inl e
      | Inr non_terminal \<Rightarrow> mask_assign t (mask_bits non_terminal) vals)"

text \<open>The end of \<open>constrained_next_values\<close>, from the mixtures on: the expected values
  of the mixtures, written at the positions that \<open>1 - terminals\<close> selects of tensors of
  zeros.\<close>

definition next_values_of_mixtures ::
  "Mixture list \<Rightarrow> mask_tensor \<Rightarrow> nat \<Rightarrow> nat \<Rightarrow> error + real list \<times> real list" where
  "next_values_of_mixtures mixtures terminals n n_nf =
     (case fill_expectations (zip [0..<length mixtures] mixtures)
             (replicate n_nf 0, replicate n_nf 0) of
        Inl e \<Rightarrow> Inl e
      | Inr (next_rewards_nf, next_costs_nf) \<Rightarrow>
          (case assign_non_terminal (replicate n 0) terminals next_rewards_nf of
             Inl e \<Rightarrow> Inl e
           | Inr next_rewards \<Rightarrow>
               (case assign_non_terminal (replicate n 0) terminals next_costs_nf of
                  Inl e \<Rightarrow> Inl e
                | Inr next_costs \<Rightarrow> Inr (next_rewards, next_costs))))"

text \<open>\<open>t[1 - terminals]\<close>.\<close>

definition select_non_terminal :: "'a list \<Rightarrow> mask_tensor \<Rightarrow> error + 'a list" where
  "select_non_terminal t terminals =
     (case one_minus terminals of
        Inl e \<Rightarrow> Inl e
      | Inr non_terminal \<Rightarrow> mask_select t (mask_bits non_terminal))"

definition constrained_next_values ::
  "('net, 'opt) externals \<Rightarrow> real list list \<Rightarrow> real list \<Rightarrow> mask_tensor
     \<Rightarrow> (real list \<times> real list, ('net, 'opt) bftq) py_method" where
  "constrained_next_values E next_states betas terminals =
     bindM (getsM epoch) (\<lambda>ep.
       if ep = 0
       then returnM (replicate (length next_states) 0, replicate (length next_states) 0)
       else
         bindM (liftM (select_non_terminal next_states terminals)) (\<lambda>next_states_nf.
         bindM (liftM (select_non_terminal betas terminals)) (\<lambda>betas_nf.
         bindM (compute_next_values E next_states_nf) (\<lambda>q_values.
         bindM (compute_all_hulls E q_values (length next_states_nf)) (\<lambda>hulls.
         bindM (compute_all_optimal_mixtures E (HullTuple hulls) (TensorObj betas_nf))
           (\<lambda>mixtures.
         liftM (next_values_of_mixtures mixtures terminals (length next_states)
                  (length next_states_nf))))))))"

subsection \<open>\<open>compute_targets\<close>\<close>

text \<open>The targets from the values at the next states, with the clamp of the cost
  targets when \<open>clamp_Qc\<close> is set.\<close>

definition bellman_targets ::
  "config \<Rightarrow> real list \<Rightarrow> real list \<Rightarrow> real list \<Rightarrow> real list
     \<Rightarrow> error + real list \<times> real list" where
  "bellman_targets cfg rewards costs next_rewards next_costs =
     (case tensor_add rewards (map (\<lambda>x. cfg_gamma cfg * x) next_rewards) of
        Inl e \<Rightarrow> Inl e
      | Inr target_r \<Rightarrow>
          (case tensor_add costs (map (\<lambda>x. cfg_gamma_c cfg * x) next_costs) of
             Inl e \<Rightarrow> Inl e
           | Inr target_c \<Rightarrow>
               Inr (target_r,
                    case cfg_clamp_Qc cfg of
                      None \<Rightarrow> target_c
                    | Some (lo, hi) \<Rightarrow> map (clamp lo hi) target_c)))"

definition compute_targets ::
  "('net, 'opt) externals \<Rightarrow> real list \<Rightarrow> real list \<Rightarrow> real list list \<Rightarrow> real list
     \<Rightarrow> mask_tensor \<Rightarrow> (real list \<times> real list, ('net, 'opt) bftq) py_method" where
  "compute_targets E rewards costs next_states betas terminals =
     bindM (constrained_next_values E next_states betas terminals)
       (\<lambda>(next_rewards, next_costs).
     bindM (getsM config) (\<lambda>cfg.
     liftM (bellman_targets cfg rewards costs next_rewards next_costs)))"

subsection \<open>\<open>_zip_batch\<close>\<close>

text \<open>\<open>TransitionBFTQ(*zip(*batch))\<close> raises when the batch is empty. The rows of
  \<open>state_beta_batch\<close> are the states with the budget appended; \<open>terminals\<close> is the
  tensor of booleans that \<open>push\<close> stores.\<close>

definition zip_batch ::
  "('net, 'opt) externals
     \<Rightarrow> (real list list \<times> nat list \<times> real list \<times> real list \<times> real list list \<times> real list
          \<times> mask_tensor, ('net, 'opt) bftq) py_method" where
  "zip_batch E =
     bindM (getsM memory) (\<lambda>batch.
     bindM (modifyM (\<lambda>self. self\<lparr>size_batch := Some (length batch)\<rparr>)) (\<lambda>_.
       if batch = [] then raiseM TypeError
       else
         let state_beta_batch = map (\<lambda>t. state t @ [beta t]) batch;
             mean = tensor_mean E state_beta_batch;
             std = tensor_std E state_beta_batch
         in bindM (modifyM (\<lambda>self. self\<lparr>value_network :=
                      set_normalization_params E (value_network self) mean std\<rparr>)) (\<lambda>_.
            returnM (state_beta_batch, map action batch, map reward batch, map cost batch,
                     map next_state batch, map beta batch,
                     BoolTensor (map terminal batch)))))"

subsection \<open>\<open>_compute_loss\<close>\<close>

text \<open>The weighted loss of a network against the targets.\<close>

definition loss_of ::
  "('net, 'opt) externals \<Rightarrow> loss_fn \<Rightarrow> loss_fn \<Rightarrow> real \<times> real \<Rightarrow> nat \<Rightarrow> real list list
     \<Rightarrow> nat list \<Rightarrow> real list \<Rightarrow> real list \<Rightarrow> 'net \<Rightarrow> error + real" where
  "loss_of E lf lf_c weights n_act states_betas actions target_r target_c net =
     (let vals = forward E net states_betas in
      case gather vals actions of
        Inl e \<Rightarrow> Inl e
      | Inr q_r \<Rightarrow>
          (case gather vals (map (\<lambda>a. a + n_act) actions) of
             Inl e \<Rightarrow> Inl e
           | Inr q_c \<Rightarrow>
               (let loss_qc = lf_c q_c target_c;
                    loss_qr = lf q_r target_r;
                    (w_r, w_c) = weights
                in Inr (w_c * loss_qc + w_r * loss_qr))))"

definition compute_loss ::
  "('net, 'opt) externals \<Rightarrow> real list list \<Rightarrow> nat list \<Rightarrow> real list \<Rightarrow> real list
     \<Rightarrow> (real, ('net, 'opt) bftq) py_method" where
  "compute_loss E states_betas actions target_r target_c =
     bindM (getsM (\<lambda>self. self)) (\<lambda>self.
     liftM (loss_of E (loss_function self) (loss_function_c self)
              (cfg_weights_losses (config self)) (n_actions self)
              states_betas actions target_r target_c (value_network self)))"

subsection \<open>\<open>_gradient_step\<close>\<close>

text \<open>\<open>loss.backward()\<close> gives one gradient per parameter; each is clamped to
  \<open>[-1, 1]\<close> before the optimizer updates the network.\<close>

definition gradient_step ::
  "('net, 'opt) externals \<Rightarrow> real list list \<Rightarrow> nat list \<Rightarrow> real list \<Rightarrow> real list
     \<Rightarrow> (real, ('net, 'opt) bftq) py_method" where
  "gradient_step E states_betas actions target_r target_c =
     bindM (compute_loss E states_betas actions target_r target_c) (\<lambda>loss.
     bindM (getsM (\<lambda>self. self)) (\<lambda>self.
       case optimizer self of
         None \<Rightarrow> raiseM AttributeError
       | Some opt \<Rightarrow>
           let grads = loss_backward E
                 (loss_of E (loss_function self) (loss_function_c self)
                    (cfg_weights_losses (config self)) (n_actions self)
                    states_betas actions target_r target_c)
                 (value_network self);
               clamped = map (map (clamp (- 1) 1)) grads;
               (opt', net') = optimizer_step E opt (value_network self) clamped
           in bindM (modifyM (\<lambda>self. self\<lparr>optimizer := Some opt',
                                           value_network := net'\<rparr>)) (\<lambda>_.
              returnM loss)))"

subsection \<open>\<open>reset_network\<close>, \<open>_fit\<close>, \<open>_epoch\<close>, \<open>run\<close>, \<open>reset\<close>\<close>

definition reset_network ::
  "('net, 'opt) externals \<Rightarrow> (unit, ('net, 'opt) bftq) py_method" where
  "reset_network E =
     modifyM (\<lambda>self. self\<lparr>value_network := net_reset E (value_network self)\<rparr>)"

definition fit ::
  "('net, 'opt) externals \<Rightarrow> real list list \<Rightarrow> nat list \<Rightarrow> real list \<Rightarrow> real list
     \<Rightarrow> (real, ('net, 'opt) bftq) py_method" where
  "fit E states_betas actions target_r target_c =
     bindM (compute_loss E states_betas actions target_r target_c) (\<lambda>delta.
     bindM (getsM config) (\<lambda>cfg.
     bindM (if cfg_reset_network_each_epoch cfg then reset_network E else returnM ())
       (\<lambda>_.
     bindM (for_each (\<lambda>nn_epoch.
              bindM (gradient_step E states_betas actions target_r target_c) (\<lambda>loss.
              returnM ()))
              [0..<nat (cfg_max_nn_epoch cfg)]) (\<lambda>_.
     returnM delta))))"

definition run_epoch ::
  "('net, 'opt) externals \<Rightarrow> (real, ('net, 'opt) bftq) py_method" where
  "run_epoch E =
     bindM (zip_batch E)
       (\<lambda>(states_betas, actions, rewards, costs, next_states, betas, terminals).
     bindM (compute_targets E rewards costs next_states betas terminals)
       (\<lambda>(target_r, target_c).
     fit E states_betas actions target_r target_c))"

text \<open>The loop of \<open>run\<close> over the epoch numbers \<open>ks\<close>, with the body of an epoch
  \<open>ep\<close>: the loop variable is \<open>self.epoch\<close>.\<close>

fun run_with ::
  "(real, ('net, 'opt) bftq) py_method \<Rightarrow> nat list \<Rightarrow> ('net, ('net, 'opt) bftq) py_method"
  where
  "run_with ep [] = getsM value_network"
| "run_with ep (k # ks) =
     bindM (modifyM (\<lambda>self. self\<lparr>epoch := k\<rparr>)) (\<lambda>_.
     bindM ep (\<lambda>delta.
     bindM (getsM config) (\<lambda>cfg.
       if delta < cfg_delta_stop cfg then getsM value_network
       else run_with ep ks)))"

definition run :: "('net, 'opt) externals \<Rightarrow> ('net, ('net, 'opt) bftq) py_method" where
  "run E =
     bindM (getsM config) (\<lambda>cfg.
     run_with (run_epoch E) [0..<nat (cfg_max_ftq_epochs cfg)])"


subsection \<open>\<open>__init__\<close>\<close>

text \<open>\<open>try: x = eval(v) except TypeError: x = v\<close>: a \<open>TypeError\<close> of \<open>eval\<close> keeps the
  value as it is, every other exception is raised.\<close>

definition load_config_value :: "(pyval \<Rightarrow> error + pyval) \<Rightarrow> pyval \<Rightarrow> error + pyval" where
  "load_config_value ev v =
     (case ev v of
        Inl TypeError \<Rightarrow> Inr v
      | Inl e \<Rightarrow> Inl e
      | Inr x \<Rightarrow> Inr x)"


section \<open>Specification-side definitions\<close>

text \<open>The budget stored for the multiplier \<open>m\<close> when \<open>push\<close> is given the budget
  \<open>b\<close>.\<close>

definition stored_budget :: "real option \<Rightarrow> real \<Rightarrow> real" where
  "stored_budget b m = (if b = None \<or> b = Some 0 then m else m * the b)"

definition stored_transitions ::
  "real list \<Rightarrow> nat \<Rightarrow> real \<Rightarrow> real list \<Rightarrow> bool \<Rightarrow> real \<Rightarrow> real option \<Rightarrow> real list
     \<Rightarrow> TransitionBFTQ list" where
  "stored_transitions s a r s' t c b ms =
     map (\<lambda>m. \<lparr>state = s, action = a, reward = r, next_state = s', terminal = t,
               cost = c, beta = stored_budget b m\<rparr>) ms"

text \<open>The cost target of a transition with the one-step value \<open>c\<close>: clamped when the
  configuration sets \<open>clamp_Qc\<close>.\<close>

definition clamp_target :: "config \<Rightarrow> real \<Rightarrow> real" where
  "clamp_target cfg c = (case cfg_clamp_Qc cfg of None \<Rightarrow> c | Some (lo, hi) \<Rightarrow> clamp lo hi c)"

text \<open>The epochs numbered \<open>ks\<close> executed one after the other whatever their residuals
  are, with the list of the residuals.\<close>

fun epochs_in_sequence ::
  "(real, ('net, 'opt) bftq) py_method \<Rightarrow> nat list
     \<Rightarrow> (real list, ('net, 'opt) bftq) py_method" where
  "epochs_in_sequence ep [] = returnM []"
| "epochs_in_sequence ep (k # ks) =
     bindM (modifyM (\<lambda>self. self\<lparr>epoch := k\<rparr>)) (\<lambda>_.
     bindM ep (\<lambda>delta.
     bindM (epochs_in_sequence ep ks) (\<lambda>deltas.
     returnM (delta # deltas))))"

text \<open>A network that evaluates a batch row by row: the values of a batch are the values
  of its parts, in order.\<close>

definition row_wise :: "('net, 'opt) externals \<Rightarrow> 'net \<Rightarrow> bool" where
  "row_wise E net =
     (\<forall>xs ys. forward E net (xs @ ys) = forward E net xs @ forward E net ys)"

subsection \<open>A concrete agent\<close>

definition example_config :: config where
  "example_config =
     \<lparr>cfg_betas_for_duplication = PList [PNum 1, PNum 2],
      cfg_betas_for_discretisation = PArray [0, 1],
      cfg_loss_function = ''l2'', cfg_loss_function_c = ''l2'', cfg_device = ''cpu'',
      cfg_max_ftq_epochs = 3, cfg_delta_stop = 1, cfg_gamma = 1 / 2, cfg_gamma_c = 1 / 4,
      cfg_clamp_Qc = None, cfg_split_batches = 2, cfg_hull_options = PNone,
      cfg_cpu_processes = 1, cfg_reset_network_each_epoch = False, cfg_max_nn_epoch = 1,
      cfg_weights_losses = (1, 1), cfg_optimizer_type = ''ADAM'',
      cfg_learning_rate = 1 / 10, cfg_weight_decay = 0\<rparr>"

text \<open>A loss: the sum of the squared differences.\<close>

definition example_loss :: loss_fn where
  "example_loss xs ys = sum_list (map2 (\<lambda>x y. (x - y) * (x - y)) xs ys)"

text \<open>An agent whose network is a single weight.\<close>

definition example_agent :: "(real, unit) bftq" where
  "example_agent =
     \<lparr>config = example_config,
      betas_for_duplication = PList [PNum 1, PNum 2],
      betas_for_discretisation = PArray [0, 1],
      loss_function = example_loss, loss_function_c = example_loss, device = ''cpu'',
      value_network = 1, n_actions = 1, memory = [], optimizer = Some (),
      epoch = 0, size_batch = None\<rparr>"

text \<open>Collaborators for the agent: \<open>eval\<close> evaluates the expression \<open>[]\<close>, fails on
  every other string, raises \<open>ValueError\<close> on an array and \<open>TypeError\<close> on every other
  object; the network \<open>w\<close> maps a row to \<open>[w * sum, w]\<close>, a reset sets the weight to
  \<open>0\<close>, every gradient is \<open>2\<close> and the optimizer subtracts the gradients from the
  weight; \<open>near_split\<close> shares \<open>x\<close> among the bins as evenly as it can.\<close>

definition example_point :: ValuePoint where
  "example_point = \<lparr>vp_budget = 0, vp_action = 0, qr = 1, qc = 1\<rparr>"

definition example_mixture :: Mixture where
  "example_mixture = \<lparr>mix_inf = example_point, mix_sup = example_point, probability_sup = 0\<rparr>"

fun example_eval :: "pyval \<Rightarrow> error + pyval" where
  "example_eval (PStr s) = (if s = ''[]'' then Inr (PList []) else Inl NameError)"
| "example_eval (PArray xs) = Inl ValueError"
| "example_eval v = Inl TypeError"

definition example_externals :: "(real, unit) externals" where
  "example_externals =
     \<lparr>py_eval = example_eval,
      loss_function_factory = (\<lambda>name. Inr example_loss),
      optimizer_factory = (\<lambda>name net lr wd. Inr ()),
      predict_out_features = (\<lambda>net. 2),
      forward = (\<lambda>w rows. map (\<lambda>row. [w * sum_list row, w]) rows),
      size_state = (\<lambda>net. 1),
      set_normalization_params = (\<lambda>net mean std. net),
      net_reset = (\<lambda>net. 0),
      tensor_mean = (\<lambda>rows. []),
      tensor_std = (\<lambda>rows. []),
      loss_backward = (\<lambda>f net. [[2]]),
      optimizer_step = (\<lambda>opt net grads. (opt, net - sum_list (map sum_list grads))),
      near_split = (\<lambda>x n. replicate (x mod nat n) (x div nat n + 1)
                            @ replicate (nat n - x mod nat n) (x div nat n)),
      compute_convex_hull_from_values = (\<lambda>q grid opts clamp_qc. Inr [example_point]),
      optimal_mixture = (\<lambda>h b. Inr example_mixture)\<rparr>"

text \<open>The agent in its second epoch.\<close>

definition second_epoch_agent :: "(real, unit) bftq" where
  "second_epoch_agent = example_agent\<lparr>epoch := 1\<rparr>"

text \<open>The agent with a clamp of the cost targets to \<open>[0, 1]\<close>.\<close>

definition clamped_agent :: "(real, unit) bftq" where
  "clamped_agent = example_agent\<lparr>config := example_config\<lparr>cfg_clamp_Qc := Some (0, 1)\<rparr>\<rparr>"



text \<open>The agent with no minibatch at all.\<close>

definition zero_split_agent :: "(real, unit) bftq" where
  "zero_split_agent = example_agent\<lparr>config := example_config\<lparr>cfg_split_batches := 0\<rparr>\<rparr>"

text \<open>An agent with one recorded transition that the network already fits.\<close>

definition fitted_agent :: "(real, unit) bftq" where
  "fitted_agent =
     example_agent\<lparr>memory := [\<lparr>state = [1], action = 0, reward = 1, next_state = [1],
                               terminal = False, cost = 1, beta = 0\<rparr>]\<rparr>"

text \<open>An agent with one recorded transition that the network does not fit.\<close>

definition unfitted_agent :: "(real, unit) bftq" where
  "unfitted_agent =
     example_agent\<lparr>memory := [\<lparr>state = [1], action = 0, reward = 3, next_state = [1],
                               terminal = False, cost = 2, beta = 0\<rparr>]\<rparr>"


section \<open>Properties\<close>

subsection \<open>Methods\<close>

lemma bindM_liftM_Inr [simp]: "bindM (liftM (Inr x)) f = f x"
  by (simp add: bindM_def liftM_def)

lemma bindM_liftM_Inl [simp]: "bindM (liftM (Inl e)) f = liftM (Inl e)"
  by (simp add: bindM_def liftM_def)

lemma bindM_returnM [simp]: "bindM (returnM x) f = f x"
  by (simp add: returnM_def)

lemma bindM_getsM [simp]: "bindM (getsM g) f s = f (g s) s"
  by (simp add: bindM_def getsM_def)

lemma bindM_modifyM [simp]: "bindM (modifyM g) f s = f () (g s)"
  by (simp add: bindM_def modifyM_def)

lemma liftM_apply: "liftM r s = (r, s)"
  by (simp add: liftM_def)

lemma returnM_apply: "returnM x s = (Inr x, s)"
  by (simp add: returnM_def liftM_def)

lemma raiseM_apply: "raiseM e s = (Inl e, s)"
  by (simp add: raiseM_def liftM_def)

lemma getsM_apply: "getsM g s = (Inr (g s), s)"
  by (simp add: getsM_def)

lemma modifyM_apply: "modifyM g s = (Inr (), g s)"
  by (simp add: modifyM_def)

lemmas method_apply = liftM_apply returnM_apply raiseM_apply getsM_apply modifyM_apply

lemma bindM_apply:
  "bindM m f s = (case m s of (Inl e, s') \<Rightarrow> (Inl e, s') | (Inr x, s') \<Rightarrow> f x s')"
  by (simp add: bindM_def)

text \<open>A method leaves the object as it is when its parts do.\<close>

lemma snd_bindM_frame:
  assumes "snd (m s) = s" and "\<And>x. snd (f x s) = s"
  shows "snd (bindM m f s) = s"
  using assms by (cases "m s") (auto simp: bindM_def split: sum.splits)

subsection \<open>\<open>push\<close>\<close>

lemma push_loop:
  "for_each (\<lambda>beta_d.
       bindM (liftM (if budget_truthy b then scaled_budget_tensor beta_d (the b)
                     else budget_tensor beta_d)) (\<lambda>beta_d'.
       memory_push s a r s' t c beta_d')) (map PNum ms) self
   = (Inr (), self\<lparr>memory := memory self @ stored_transitions s a r s' t c b ms\<rparr>)"
  unfolding memory_push_def
proof (induction ms arbitrary: self)
  case Nil
  then show ?case by (simp add: returnM_def liftM_def stored_transitions_def)
next
  case (Cons m ms)
  have step: "(if budget_truthy b then scaled_budget_tensor (PNum m) (the b)
               else budget_tensor (PNum m)) = Inr (stored_budget b m)"
    by (cases b) (auto simp: stored_budget_def)
  show ?case
    by (simp add: step Cons.IH stored_transitions_def)
qed

text \<open>
  C10. When the duplication multipliers are a non-empty list of numbers \<open>ms\<close>, a call
  of \<open>push\<close> succeeds and appends to the memory exactly one transition per multiplier,
  in order. The stored budgets are the multipliers themselves when the supplied budget
  is absent or zero, and the multipliers times the supplied budget otherwise: a budget
  of zero is treated as a missing one.
\<close>

theorem push_duplicates:
  assumes "betas_for_duplication self = PList (map PNum ms)" and "ms \<noteq> []"
  shows "push s a r s' t c b self =
           (Inr (), self\<lparr>memory := memory self @ stored_transitions s a r s' t c b ms\<rparr>)
         \<and> length (stored_transitions s a r s' t c b ms) = length ms
         \<and> map beta (stored_transitions s a r s' t c b ms) =
             (if b = None \<or> b = Some 0 then ms else map (\<lambda>m. m * the b) ms)"
  using assms
  by (auto simp: push_def push_loop stored_transitions_def stored_budget_def comp_def)

theorem push_duplicates_witness:
  "betas_for_duplication example_agent = PList (map PNum [1, 2]) \<and> [1, 2 :: real] \<noteq> []
   \<and> push [0] 0 1 [0] False 1 (Some 0) example_agent =
        (Inr (), example_agent\<lparr>memory := memory example_agent @
            stored_transitions [0] 0 1 [0] False 1 (Some 0) [1, 2]\<rparr>)
   \<and> map beta (stored_transitions [0] 0 1 [0] False 1 (Some 0) [1, 2]) = [1, 2]"
proof -
  have h: "betas_for_duplication example_agent = PList (map PNum [1, 2])"
    by (simp add: example_agent_def)
  have n: "[1, 2 :: real] \<noteq> []" by simp
  show ?thesis
    using push_duplicates [OF h n, of "[0]" 0 1 "[0]" False 1 "Some 0"] h by simp
qed

subsection \<open>The object is read only by the computation of the targets\<close>

lemma compute_next_values_frame: "snd (compute_next_values E next_states self) = self"
  by (simp add: compute_next_values_def Let_def snd_bindM_frame method_apply)

lemma compute_all_hulls_frame: "snd (compute_all_hulls E q_values n self) = self"
  by (simp add: compute_all_hulls_def snd_bindM_frame method_apply)

lemma compute_all_optimal_mixtures_frame:
  "snd (compute_all_optimal_mixtures E x y self) = self"
  by (simp add: compute_all_optimal_mixtures_def snd_bindM_frame method_apply)

lemma constrained_next_values_frame:
  "snd (constrained_next_values E next_states betas terminals self) = self"
  by (simp add: constrained_next_values_def snd_bindM_frame compute_next_values_frame
      compute_all_hulls_frame compute_all_optimal_mixtures_frame method_apply)

lemma compute_targets_frame:
  "snd (compute_targets E rewards costs next_states betas terminals self) = self"
  by (simp add: compute_targets_def snd_bindM_frame constrained_next_values_frame
      method_apply split: prod.splits)

text \<open>
  C9. \<open>compute_targets\<close>, \<open>constrained_next_values\<close> and \<open>compute_next_values\<close> leave
  the whole object as it was, whether they return or raise, and so its value network:
  the network and its parameters are the same after the call as before.
\<close>

theorem targets_leave_network:
  "snd (compute_targets E rewards costs next_states betas terminals self) = self
   \<and> snd (constrained_next_values E next_states betas terminals self) = self
   \<and> snd (compute_next_values E next_states self) = self
   \<and> value_network (snd (compute_targets E rewards costs next_states betas terminals self))
       = value_network self"
  by (simp add: compute_targets_frame constrained_next_values_frame
      compute_next_values_frame)

subsection \<open>The epochs after the first\<close>

text \<open>\<open>constrained_next_values\<close> passes the hulls first and the budgets second, and
  \<open>compute_all_optimal_mixtures\<close> takes the budgets first and the hulls second: the
  first element it calls \<open>beta\<close> is a hull, which has no \<open>detach\<close>.\<close>

lemma swapped_arguments:
  "compute_all_optimal_mixtures E (HullTuple (h # hs)) (TensorObj (b # bs)) self
     = (Inl AttributeError, self)"
  by (simp add: compute_all_optimal_mixtures_def py_getitem_def upt_rec [of 0]
      method_apply)

lemma swapped_arguments_raise:
  "\<exists>e. compute_all_optimal_mixtures E (HullTuple (h # hs)) b self = (Inl e, self)"
  by (cases "py_getitem b 0")
    (simp_all add: compute_all_optimal_mixtures_def upt_rec [of 0] method_apply)

lemma second_epoch [simp]: "epoch second_epoch_agent = 1"
  by (simp add: second_epoch_agent_def)

lemma one_minus_boolean:
  "epoch self \<noteq> 0
     \<Longrightarrow> constrained_next_values E next_states betas (BoolTensor ts) self
         = (Inl RuntimeError, self)"
  by (simp add: constrained_next_values_def select_non_terminal_def method_apply)

lemma compute_all_hulls_Inr:
  "compute_all_hulls E q n self = (Inr hulls, s') \<Longrightarrow> hulls \<noteq> []"
  by (auto simp: compute_all_hulls_def bindM_apply method_apply
      split: sum.splits if_splits)

lemma later_epochs_raise:
  assumes "epoch self \<noteq> 0"
  shows "\<exists>e. fst (constrained_next_values E next_states betas terminals self) = Inl e"
proof -
  have "\<not> (\<exists>r. fst (constrained_next_values E next_states betas terminals self) = Inr r)"
  proof
    assume "\<exists>r. fst (constrained_next_values E next_states betas terminals self) = Inr r"
    then obtain r where
      r: "fst (constrained_next_values E next_states betas terminals self) = Inr r" ..
    show False
    proof (cases "select_non_terminal next_states terminals")
      case (Inl e)
      then show False using r assms
        by (simp add: constrained_next_values_def method_apply)
    next
      case ns: (Inr next_states_nf)
      show False
      proof (cases "select_non_terminal betas terminals")
        case (Inl e)
        then show False using r assms ns
          by (simp add: constrained_next_values_def method_apply)
      next
        case bs: (Inr betas_nf)
        obtain q s1 where q: "compute_next_values E next_states_nf self = (q, s1)"
          by (cases "compute_next_values E next_states_nf self")
        have s1: "s1 = self" using compute_next_values_frame [of E next_states_nf self] q by simp
        show False
        proof (cases q)
          case (Inl e)
          then show False using r assms ns bs q
            by (simp add: constrained_next_values_def method_apply
                bindM_apply [of "compute_next_values E next_states_nf"])
        next
          case qv: (Inr q_values)
          obtain h s2 where
            h: "compute_all_hulls E q_values (length next_states_nf) self = (h, s2)"
            by (cases "compute_all_hulls E q_values (length next_states_nf) self")
          show False
          proof (cases h)
            case (Inl e)
            then show False using r assms ns bs q qv s1 h
              by (simp add: constrained_next_values_def method_apply
                  bindM_apply [of "compute_next_values E next_states_nf"]
                  bindM_apply [of "compute_all_hulls E q_values (length next_states_nf)"])
          next
            case hv: (Inr hulls)
            have s2: "s2 = self"
              using compute_all_hulls_frame [of E q_values "length next_states_nf" self] h
              by simp
            have "hulls \<noteq> []" using compute_all_hulls_Inr h hv by blast
            then obtain h0 hs where hh: "hulls = h0 # hs" by (cases hulls) auto
            obtain e where
              e: "compute_all_optimal_mixtures E (HullTuple hulls) (TensorObj betas_nf) self
                    = (Inl e, self)"
              using swapped_arguments_raise [of E h0 hs "TensorObj betas_nf" self] hh by blast
            show False using r assms ns bs q qv s1 h hv s2 e
              by (simp add: constrained_next_values_def method_apply
                  bindM_apply [of "compute_next_values E next_states_nf"]
                  bindM_apply [of "compute_all_hulls E q_values (length next_states_nf)"]
                  bindM_apply [of "compute_all_optimal_mixtures E (HullTuple hulls)
                                     (TensorObj betas_nf)"])
          qed
        qed
      qed
    qed
  qed
  then show ?thesis
    by (cases "fst (constrained_next_values E next_states betas terminals self)") auto
qed


lemma example_next_values:
  "compute_next_values example_externals [[1]] second_epoch_agent
     = (Inr [[1, 1], [2, 1]], second_epoch_agent)"
  by (simp add: compute_next_values_def second_epoch_agent_def example_agent_def
      example_config_def example_externals_def state_budget_batch_def repeated_states_def
      view_rows_def minibatch_values_def py_slice_def torch_cat_def Let_def upt_rec [of 0]
      upt_rec [of 1] numeral_2_eq_2 method_apply)

lemma example_hulls:
  "compute_all_hulls example_externals q (Suc 0) second_epoch_agent
     = (Inr [[example_point]], second_epoch_agent)"
  by (simp add: compute_all_hulls_def second_epoch_agent_def example_agent_def
      example_config_def example_externals_def method_apply)

lemma example_later_epoch:
  "constrained_next_values example_externals [[1]] [0] (ByteTensor [0]) second_epoch_agent
     = (Inl AttributeError, second_epoch_agent)"
  by (simp add: constrained_next_values_def select_non_terminal_def mask_select_def
      bindM_apply method_apply example_next_values example_hulls swapped_arguments)

text \<open>
  C1. The constrained backup is to call the mixture selector once per state with the
  hull of the state as frontier and the stored budget as budget. In the code the call
  gives the tuple of hulls where the method expects the budgets and the tensor of
  budgets where it expects the hulls: with at least one hull and one budget the method
  raises \<open>AttributeError\<close> before the selector is called at all, and so does
  \<open>constrained_next_values\<close> in the second epoch on one non-terminal transition whose
  flag is a byte. With the flag a boolean, as \<open>push\<close> stores it, the method raises
  \<open>RuntimeError\<close> earlier, at \<open>1 - terminals\<close>.
\<close>

theorem mixtures_called_with_swapped_arguments:
  "fst (compute_all_optimal_mixtures E (HullTuple (h # hs)) (TensorObj (b # bs)) self)
     = Inl AttributeError
   \<and> fst (constrained_next_values example_externals [[1]] [0] (ByteTensor [0])
            second_epoch_agent) = Inl AttributeError
   \<and> fst (constrained_next_values example_externals [[1]] [0] (BoolTensor [False])
            second_epoch_agent) = Inl RuntimeError"
  by (simp add: swapped_arguments example_later_epoch one_minus_boolean)

lemma compute_targets_raises:
  "fst (constrained_next_values E next_states betas terminals self) = Inl e
     \<Longrightarrow> fst (compute_targets E rewards costs next_states betas terminals self) = Inl e"
  by (cases "constrained_next_values E next_states betas terminals self")
    (simp add: compute_targets_def bindM_apply)

text \<open>
  C3. After the first epoch \<open>compute_targets\<close> returns no target at all: on the tensor
  of booleans that \<open>push\<close> and \<open>_zip_batch\<close> build it raises \<open>RuntimeError\<close>, at
  \<open>1 - terminals\<close>, and on every other tensor of flags it raises as well.
\<close>

theorem targets_raise_after_first_epoch:
  assumes "epoch self \<noteq> 0"
  shows "fst (compute_targets E rewards costs next_states betas (BoolTensor ts) self)
           = Inl RuntimeError
         \<and> (\<exists>e. fst (compute_targets E rewards costs next_states betas terminals self)
                  = Inl e)"
proof -
  have "fst (constrained_next_values E next_states betas (BoolTensor ts) self)
          = Inl RuntimeError"
    using assms by (simp add: one_minus_boolean)
  moreover obtain e where
    "fst (constrained_next_values E next_states betas terminals self) = Inl e"
    using later_epochs_raise [OF assms] by blast
  ultimately show ?thesis
    using compute_targets_raises by blast
qed

theorem targets_raise_after_first_epoch_witness:
  "epoch second_epoch_agent \<noteq> 0
   \<and> fst (compute_targets example_externals [1] [1] [[1]] [0] (BoolTensor [False])
            second_epoch_agent) = Inl RuntimeError
   \<and> fst (compute_targets example_externals [1] [1] [[1]] [0] (ByteTensor [0])
            second_epoch_agent) = Inl AttributeError"
proof -
  have e: "epoch second_epoch_agent \<noteq> 0" by simp
  have a: "fst (compute_targets example_externals [1] [1] [[1]] [0] (ByteTensor [0])
                  second_epoch_agent) = Inl AttributeError"
    by (rule compute_targets_raises) (simp add: example_later_epoch)
  show ?thesis
    using targets_raise_after_first_epoch [OF e, of example_externals "[1]" "[1]" "[[1]]"
        "[0]" "[False]" "ByteTensor [0]"] e a
    by simp
qed

subsection \<open>Masked assignment\<close>

lemma length_scatter [simp]: "length (scatter xs sel vs) = length xs"
  by (induction xs sel vs rule: scatter.induct) simp_all

lemma scatter_unselected:
  "length sel = length xs \<Longrightarrow> i < length xs \<Longrightarrow> \<not> sel ! i
     \<Longrightarrow> scatter xs sel vs ! i = xs ! i"
proof (induction xs sel vs arbitrary: i rule: scatter.induct)
  case (1 x xs ms v vs)
  then show ?case by (cases i) simp_all
next
  case (2 x xs ms vs)
  then show ?case by (cases i) simp_all
qed simp_all

lemma assign_non_terminal_Inr:
  assumes "assign_non_terminal (replicate n 0) (ByteTensor ts) vals = Inr xs"
  shows "length xs = n" and "length ts = n"
    and "i < n \<Longrightarrow> ts ! i mod 256 = 1 \<Longrightarrow> xs ! i = 0"
proof -
  let ?sel = "map (\<lambda>x. (257 - x mod 256) mod 256 mod 256 \<noteq> 0) ts"
  have x: "xs = scatter (replicate n 0) ?sel vals" and l: "length ts = n"
    using assms
    by (auto simp: assign_non_terminal_def mask_assign_def comp_def split: if_splits)
  show "length xs = n" using x by simp
  show "length ts = n" by (rule l)
  show "xs ! i = 0" if "i < n" and "ts ! i mod 256 = 1"
  proof -
    have "\<not> ?sel ! i" using that l by simp
    then have "scatter (replicate n 0) ?sel vals ! i = replicate n 0 ! i"
      using that l by (intro scatter_unselected) simp_all
    then show ?thesis using x that by simp
  qed
qed

lemma next_values_of_mixtures_terminal:
  assumes "next_values_of_mixtures mixtures (ByteTensor ts) n n_nf = Inr (nr, nc)"
  shows "length nr = n" and "length nc = n"
    and "i < n \<Longrightarrow> ts ! i mod 256 = 1 \<Longrightarrow> nr ! i = 0 \<and> nc ! i = 0"
proof -
  obtain vr vc where
    r: "assign_non_terminal (replicate n 0) (ByteTensor ts) vr = Inr nr"
    and c: "assign_non_terminal (replicate n 0) (ByteTensor ts) vc = Inr nc"
    using assms
    by (auto simp: next_values_of_mixtures_def split: sum.splits prod.splits)
  show "length nr = n" using assign_non_terminal_Inr(1) [OF r] .
  show "length nc = n" using assign_non_terminal_Inr(1) [OF c] .
  show "nr ! i = 0 \<and> nc ! i = 0" if "i < n" and "ts ! i mod 256 = 1"
    using assign_non_terminal_Inr(3) [OF r that] assign_non_terminal_Inr(3) [OF c that]
    by simp
qed

subsection \<open>The targets\<close>

lemma tensor_add_same:
  "length xs = length ys \<Longrightarrow> tensor_add xs ys = Inr (map2 (+) xs ys)"
  by (simp add: tensor_add_def)

lemma bellman_targets_value:
  assumes "length rewards = length nr" and "length costs = length nc"
  shows "bellman_targets cfg rewards costs nr nc
     = Inr (map2 (+) rewards (map (\<lambda>x. cfg_gamma cfg * x) nr),
            map (clamp_target cfg) (map2 (+) costs (map (\<lambda>x. cfg_gamma_c cfg * x) nc)))"
  using assms
  by (auto simp: bellman_targets_def tensor_add_same clamp_target_def
      split: option.splits prod.splits)

lemma bellman_targets_zeros:
  assumes "length rewards = n" and "length costs = n"
  shows "bellman_targets cfg rewards costs (replicate n 0) (replicate n 0)
           = Inr (rewards, map (clamp_target cfg) costs)"
proof -
  have a: "map2 (+) rewards (map (\<lambda>x. cfg_gamma cfg * x) (replicate n 0)) = rewards"
    using assms by (simp add: list_eq_iff_nth_eq)
  have b: "map2 (+) costs (map (\<lambda>x. cfg_gamma_c cfg * x) (replicate n 0)) = costs"
    using assms by (simp add: list_eq_iff_nth_eq)
  have "bellman_targets cfg rewards costs (replicate n 0) (replicate n 0)
          = Inr (map2 (+) rewards (map (\<lambda>x. cfg_gamma cfg * x) (replicate n 0)),
                 map (clamp_target cfg)
                   (map2 (+) costs (map (\<lambda>x. cfg_gamma_c cfg * x) (replicate n 0))))"
    using assms by (intro bellman_targets_value) simp_all
  then show ?thesis by (simp only: a b)
qed

lemma constrained_next_values_first_epoch:
  "epoch self = 0
     \<Longrightarrow> constrained_next_values E next_states betas terminals self
         = (Inr (replicate (length next_states) 0, replicate (length next_states) 0), self)"
  by (simp add: constrained_next_values_def method_apply)

lemma compute_targets_first_epoch:
  assumes "epoch self = 0" and "length rewards = length next_states"
    and "length costs = length next_states"
  shows "compute_targets E rewards costs next_states betas terminals self
           = (Inr (rewards, map (clamp_target (config self)) costs), self)"
  using assms
  by (simp add: compute_targets_def bindM_apply constrained_next_values_first_epoch
      bellman_targets_zeros method_apply)

lemma clamp_target_None: "cfg_clamp_Qc cfg = None \<Longrightarrow> clamp_target cfg c = c"
  by (simp add: clamp_target_def)

text \<open>
  C4. In the first epoch (\<open>epoch = 0\<close>) the values at the next states are zero for every
  transition, and \<open>compute_targets\<close> returns the rewards as reward targets and the
  costs, clamped into the range \<open>clamp_Qc\<close> when the configuration sets one, as cost
  targets; without a clamp the cost targets are the raw costs.
\<close>

theorem first_epoch_targets:
  assumes "epoch self = 0" and "length rewards = length next_states"
    and "length costs = length next_states"
  shows "constrained_next_values E next_states betas terminals self
           = (Inr (replicate (length next_states) 0, replicate (length next_states) 0), self)
         \<and> compute_targets E rewards costs next_states betas terminals self
           = (Inr (rewards, map (clamp_target (config self)) costs), self)
         \<and> (cfg_clamp_Qc (config self) = None
              \<longrightarrow> map (clamp_target (config self)) costs = costs)"
  using assms
  by (simp add: constrained_next_values_first_epoch compute_targets_first_epoch
      clamp_target_None cong: map_cong)

theorem first_epoch_targets_witness:
  "epoch example_agent = 0 \<and> length [1 :: real] = length [[0 :: real]]
   \<and> length [5 :: real] = length [[0 :: real]]
   \<and> cfg_clamp_Qc (config example_agent) = None
   \<and> compute_targets example_externals [1] [5] [[0]] [1] (BoolTensor [False]) example_agent
        = (Inr ([1], [5]), example_agent)"
proof -
  have e: "epoch example_agent = 0" by (simp add: example_agent_def)
  have c: "cfg_clamp_Qc (config example_agent) = None"
    by (simp add: example_agent_def example_config_def)
  show ?thesis
    using first_epoch_targets [where self = example_agent and rewards = "[1]"
        and costs = "[5]" and next_states = "[[0]]" and E = example_externals
        and betas = "[1]" and terminals = "BoolTensor [False]", OF e] e c
    by simp
qed

text \<open>With a clamp to \<open>[0, 1]\<close> the cost target of a transition of cost \<open>5\<close> in the first
  epoch is \<open>1\<close>, not the raw cost.\<close>

theorem first_epoch_cost_clamped:
  "epoch clamped_agent = 0
   \<and> fst (compute_targets example_externals [1] [5] [[0]] [1] (BoolTensor [False])
            clamped_agent) = Inr ([1], [1])
   \<and> [1] \<noteq> [5 :: real]"
  by (simp add: compute_targets_first_epoch clamped_agent_def example_agent_def
      clamp_target_def clamp_def)

text \<open>
  C2. The targets of a terminal transition are its reward and its cost clamped into the
  range \<open>clamp_Qc\<close> when the configuration sets one (the cost itself without a clamp),
  whatever the discount factors are. In the first epoch these are the targets that
  \<open>compute_targets\<close> returns, for every transition. After the first epoch they are the
  targets that the end of \<open>constrained_next_values\<close> and the target arithmetic give,
  from any mixtures, to a transition whose flag is the byte \<open>1\<close>: the masked assignment
  leaves its next values at zero.
\<close>

theorem terminal_targets:
  "(epoch self = 0 \<and> length rewards = length next_states
      \<and> length costs = length next_states \<and> i < length next_states
    \<longrightarrow> (\<exists>target_r target_c.
          compute_targets E rewards costs next_states betas terminals self
            = (Inr (target_r, target_c), self)
          \<and> target_r ! i = rewards ! i
          \<and> target_c ! i = clamp_target (config self) (costs ! i)))
   \<and> (next_values_of_mixtures mixtures (ByteTensor ts) n n_nf = Inr (next_rewards, next_costs)
      \<and> bellman_targets cfg rewards' costs' next_rewards next_costs = Inr (tr, tc)
      \<and> length rewards' = n \<and> length costs' = n \<and> j < n \<and> ts ! j mod 256 = 1
    \<longrightarrow> next_rewards ! j = 0 \<and> next_costs ! j = 0
        \<and> tr ! j = rewards' ! j \<and> tc ! j = clamp_target cfg (costs' ! j)
        \<and> (cfg_clamp_Qc cfg = None \<longrightarrow> tc ! j = costs' ! j))"
proof (intro conjI impI)
  assume a: "epoch self = 0 \<and> length rewards = length next_states
      \<and> length costs = length next_states \<and> i < length next_states"
  then show "\<exists>target_r target_c.
          compute_targets E rewards costs next_states betas terminals self
            = (Inr (target_r, target_c), self)
          \<and> target_r ! i = rewards ! i
          \<and> target_c ! i = clamp_target (config self) (costs ! i)"
    by (simp add: compute_targets_first_epoch)
next
  assume b: "next_values_of_mixtures mixtures (ByteTensor ts) n n_nf
               = Inr (next_rewards, next_costs)
      \<and> bellman_targets cfg rewards' costs' next_rewards next_costs = Inr (tr, tc)
      \<and> length rewards' = n \<and> length costs' = n \<and> j < n \<and> ts ! j mod 256 = 1"
  then have nv: "next_values_of_mixtures mixtures (ByteTensor ts) n n_nf
                   = Inr (next_rewards, next_costs)"
    and bt: "bellman_targets cfg rewards' costs' next_rewards next_costs = Inr (tr, tc)"
    and l: "length rewards' = n" "length costs' = n" and j: "j < n" "ts ! j mod 256 = 1"
    by simp_all
  have ln: "length next_rewards = n" "length next_costs = n"
    using next_values_of_mixtures_terminal(1,2) [OF nv] by simp_all
  have z: "next_rewards ! j = 0 \<and> next_costs ! j = 0"
    using next_values_of_mixtures_terminal(3) [OF nv j] .
  have v: "tr = map2 (+) rewards' (map (\<lambda>x. cfg_gamma cfg * x) next_rewards)"
    "tc = map (clamp_target cfg)
            (map2 (+) costs' (map (\<lambda>x. cfg_gamma_c cfg * x) next_costs))"
    using bt bellman_targets_value [of rewards' next_rewards costs' next_costs cfg] l ln
    by simp_all
  have t: "tr ! j = rewards' ! j \<and> tc ! j = clamp_target cfg (costs' ! j)"
    using v l ln j z by simp
  show "next_rewards ! j = 0" "next_costs ! j = 0" using z by simp_all
  show "tr ! j = rewards' ! j" "tc ! j = clamp_target cfg (costs' ! j)" using t by simp_all
  show "tc ! j = costs' ! j" if "cfg_clamp_Qc cfg = None"
    using t that by (simp add: clamp_target_None)
qed


lemma example_next_values_of_mixtures:
  "next_values_of_mixtures [example_mixture] (ByteTensor [1, 0]) 2 1 = Inr ([0, 1], [0, 1])"
  by (simp add: next_values_of_mixtures_def assign_non_terminal_def mask_assign_def
      mixture_reward_def mixture_cost_def example_mixture_def example_point_def
      numeral_2_eq_2)

lemma example_bellman_targets:
  "bellman_targets example_config [1, 2] [3, 4] [0, 1] [0, 1] = Inr ([1, 5 / 2], [3, 17 / 4])"
  by (simp add: bellman_targets_def tensor_add_def example_config_def)

theorem terminal_targets_witness:
  "epoch clamped_agent = 0
   \<and> compute_targets example_externals [2] [1 / 2] [[0]] [1] (BoolTensor [True]) clamped_agent
       = (Inr ([2], [1 / 2]), clamped_agent)
   \<and> next_values_of_mixtures [example_mixture] (ByteTensor [1, 0]) 2 1 = Inr ([0, 1], [0, 1])
   \<and> bellman_targets example_config [1, 2] [3, 4] [0, 1] [0, 1] = Inr ([1, 5 / 2], [3, 17 / 4])
   \<and> [1, 0] ! 0 mod 256 = (1 :: nat)
   \<and> [1, 5 / 2] ! 0 = [1, 2 :: real] ! 0
   \<and> [3, 17 / 4] ! 0 = clamp_target example_config ([3, 4] ! 0)"
proof -
  have e: "epoch clamped_agent = 0" by (simp add: clamped_agent_def example_agent_def)
  have c: "compute_targets example_externals [2] [1 / 2] [[0]] [1] (BoolTensor [True])
             clamped_agent = (Inr ([2], [1 / 2]), clamped_agent)"
    by (simp add: compute_targets_first_epoch e) (simp add: clamped_agent_def
        example_agent_def clamp_target_def clamp_def)
  show ?thesis
    using terminal_targets [where self = clamped_agent and rewards = "[2]"
        and costs = "[1 / 2]" and next_states = "[[0]]" and i = 0
        and E = example_externals and betas = "[1]" and terminals = "BoolTensor [True]"
        and mixtures = "[example_mixture]" and ts = "[1, 0]" and n = 2 and n_nf = 1
        and next_rewards = "[0, 1]" and next_costs = "[0, 1]" and cfg = example_config
        and rewards' = "[1, 2]" and costs' = "[3, 4]" and tr = "[1, 5 / 2]"
        and tc = "[3, 17 / 4]" and j = 0]
      e c example_next_values_of_mixtures example_bellman_targets
    by simp
qed

text \<open>With a clamp to \<open>[0, 1]\<close> the cost target of a terminal transition of cost \<open>5\<close> is
  \<open>1\<close>.\<close>

theorem terminal_cost_clamped:
  "fst (compute_targets example_externals [1] [5] [[0]] [1] (BoolTensor [True])
          clamped_agent) = Inr ([1], [1])
   \<and> [True] ! 0 \<and> [1] ! 0 \<noteq> ([5 :: real]) ! 0"
  by (simp add: compute_targets_first_epoch clamped_agent_def example_agent_def
      clamp_target_def clamp_def)

subsection \<open>\<open>_fit\<close>\<close>

lemma compute_loss_value:
  "compute_loss E states_betas actions target_r target_c self
     = (loss_of E (loss_function self) (loss_function_c self)
          (cfg_weights_losses (config self)) (n_actions self)
          states_betas actions target_r target_c (value_network self), self)"
  by (simp add: compute_loss_def method_apply)





lemma example_loss_of:
  "loss_of example_externals example_loss example_loss (1, 1) (Suc 0) [[1, 0]] [0] [3] [2] w
     = Inr ((w - 2) * (w - 2) + (w - 3) * (w - 3))"
  by (simp add: loss_of_def gather_def example_externals_def example_loss_def Let_def)




subsection \<open>\<open>compute_next_values\<close>\<close>

lemma sum_take_Suc:
  "\<exists>d. sum_list (take (Suc n) sizes) = sum_list (take n sizes) + (d :: nat)"
proof (cases "n < length sizes")
  case True
  then show ?thesis by (simp add: take_Suc_conv_app_nth)
next
  case False
  then show ?thesis by simp
qed

lemma slices_cover:
  "concat (map (\<lambda>minibatch. py_slice xs (sum_list (take minibatch sizes))
                                (sum_list (take (minibatch + 1) sizes))) [0..<n])
     = take (sum_list (take n (sizes :: nat list))) xs"
proof (induction n)
  case 0
  then show ?case by simp
next
  case (Suc n)
  obtain d where d: "sum_list (take (Suc n) sizes) = sum_list (take n sizes) + d"
    using sum_take_Suc by blast
  have "take (sum_list (take n sizes)) xs
          @ py_slice xs (sum_list (take n sizes)) (sum_list (take (Suc n) sizes))
        = take (sum_list (take (Suc n) sizes)) xs"
    by (simp only: py_slice_def d add_diff_cancel_left' take_add)
  then show ?case
    using Suc.IH by simp
qed

lemma row_wise_empty: "row_wise E net \<Longrightarrow> forward E net [] = []"
proof -
  assume "row_wise E net"
  then have "forward E net ([] @ []) = forward E net [] @ forward E net []"
    unfolding row_wise_def by blast
  then show ?thesis by simp
qed

lemma row_wise_concat:
  assumes "row_wise E net"
  shows "concat (map (forward E net) xss) = forward E net (concat xss)"
proof (induction xss)
  case Nil
  then show ?case using row_wise_empty [OF assms] by simp
next
  case (Cons xs xss)
  have "forward E net (xs @ concat xss) = forward E net xs @ forward E net (concat xss)"
    using assms unfolding row_wise_def by blast
  then show ?case using Cons.IH by simp
qed

lemma minibatch_values_concat:
  assumes "row_wise E net"
  shows "concat (minibatch_values E net sb batch_sizes split_batches)
     = forward E net (take (sum_list (take (nat split_batches) batch_sizes)) sb)"
proof -
  have "concat (minibatch_values E net sb batch_sizes split_batches)
          = concat (map (forward E net)
              (map (\<lambda>minibatch. py_slice sb (sum_list (take minibatch batch_sizes))
                              (sum_list (take (minibatch + 1) batch_sizes)))
                         [0..<nat split_batches]))"
    by (simp add: minibatch_values_def comp_def)
  then show ?thesis by (simp only: row_wise_concat [OF assms] slices_cover)
qed

text \<open>
  C8. When the batch of state-budget rows is built, the number of minibatches is
  positive, the sizes that \<open>near_split\<close> returns for the minibatches cover the batch and
  the network evaluates a batch row by row, the concatenation of the forward
  evaluations of the minibatches that \<open>compute_next_values\<close> returns is the forward
  evaluation of the whole batch, in the order of the batch.
\<close>

theorem minibatches_equal_whole_batch:
  assumes "state_budget_batch next_states (betas_for_discretisation self)
             (size_state E (value_network self)) = Inr sb"
    and "0 < cfg_split_batches (config self)"
    and "length sb \<le> sum_list (take (nat (cfg_split_batches (config self)))
                         (near_split E (length sb) (cfg_split_batches (config self))))"
    and "row_wise E (value_network self)"
  shows "compute_next_values E next_states self
           = (Inr (forward E (value_network self) sb), self)"
proof -
  have ne: "minibatch_values E (value_network self) sb
              (near_split E (length sb) (cfg_split_batches (config self)))
              (cfg_split_batches (config self)) \<noteq> []"
    using assms(2) by (simp add: minibatch_values_def)
  show ?thesis
    using assms(1,3) ne
    by (simp add: compute_next_values_def Let_def torch_cat_def
        minibatch_values_concat [OF assms(4)] method_apply)
qed

lemma example_row_wise: "row_wise example_externals w"
  by (simp add: row_wise_def example_externals_def)

lemma example_batch:
  "state_budget_batch [[1], [2]] (PArray [0, 1]) 1 = Inr [[1, 0], [2, 1], [1, 0], [2, 1]]"
  by (simp add: state_budget_batch_def repeated_states_def view_rows_def numeral_2_eq_2
      numeral_eq_Suc)

theorem minibatches_equal_whole_batch_witness:
  "state_budget_batch [[1], [2]] (betas_for_discretisation example_agent)
     (size_state example_externals (value_network example_agent))
     = Inr [[1, 0], [2, 1], [1, 0], [2, 1]]
   \<and> 0 < cfg_split_batches (config example_agent)
   \<and> near_split example_externals 4 (cfg_split_batches (config example_agent)) = [2, 2]
   \<and> row_wise example_externals (value_network example_agent)
   \<and> minibatch_values example_externals 1 [[1, 0], [2, 1], [1, 0], [2, 1]] [2, 2] 2
       = [[[1, 1], [3, 1]], [[1, 1], [3, 1]]]
   \<and> compute_next_values example_externals [[1], [2]] example_agent
       = (Inr [[1, 1], [3, 1], [1, 1], [3, 1]], example_agent)"
proof -
  have b: "state_budget_batch [[1], [2]] (betas_for_discretisation example_agent)
             (size_state example_externals (value_network example_agent))
             = Inr [[1, 0], [2, 1], [1, 0], [2, 1]]"
    using example_batch by (simp add: example_agent_def example_externals_def)
  have s: "0 < cfg_split_batches (config example_agent)"
    by (simp add: example_agent_def example_config_def)
  have n: "near_split example_externals 4 (cfg_split_batches (config example_agent)) = [2, 2]"
    by (simp add: example_agent_def example_config_def example_externals_def)
      (simp add: numeral_2_eq_2)
  have l: "length [[1, 0], [2, 1], [1, 0], [2 :: real, 1]]
             \<le> sum_list (take (nat (cfg_split_batches (config example_agent)))
                   (near_split example_externals (length [[1, 0], [2, 1], [1, 0], [2 :: real, 1]])
                      (cfg_split_batches (config example_agent))))"
  proof -
    have len: "length [[1, 0], [2, 1], [1, 0], [2 :: real, 1]] = 4" by simp
    have c: "nat (cfg_split_batches (config example_agent)) = 2"
      by (simp add: example_agent_def example_config_def)
    show ?thesis unfolding len n c by simp
  qed
  have m: "minibatch_values example_externals 1 [[1, 0], [2, 1], [1, 0], [2, 1]] [2, 2] 2
             = [[[1, 1], [3, 1]], [[1, 1], [3, 1]]]"
    by (simp add: minibatch_values_def py_slice_def example_externals_def upt_rec [of 0]
        upt_rec [of 1] numeral_2_eq_2)
  have f: "forward example_externals (value_network example_agent)
             [[1, 0], [2, 1], [1, 0], [2, 1]] = [[1, 1], [3, 1], [1, 1], [3, 1]]"
    by (simp add: example_externals_def example_agent_def)
  show ?thesis
    using minibatches_equal_whole_batch [OF b s l example_row_wise] b s n m f
      example_row_wise [of "value_network example_agent"]
    by simp
qed

text \<open>With no minibatch at all \<open>compute_next_values\<close> raises: there is nothing to
  concatenate, whereas the forward evaluation of the whole batch has a value.\<close>

theorem no_minibatch_raises:
  "cfg_split_batches (config zero_split_agent) = 0
   \<and> fst (compute_next_values example_externals [[1]] zero_split_agent) = Inl RuntimeError
   \<and> state_budget_batch [[1]] (betas_for_discretisation zero_split_agent)
        (size_state example_externals (value_network zero_split_agent))
       = Inr [[1, 0], [1, 1]]
   \<and> forward example_externals (value_network zero_split_agent) [[1, 0], [1, 1]]
       = [[1, 1], [2, 1]]"
  by (simp add: compute_next_values_def zero_split_agent_def example_agent_def
      example_config_def example_externals_def state_budget_batch_def repeated_states_def
      view_rows_def minibatch_values_def torch_cat_def Let_def numeral_2_eq_2
      method_apply)

subsection \<open>\<open>run\<close>\<close>

lemma config_bindM:
  assumes "\<And>s. config (snd (m s)) = config s" and "\<And>x s. config (snd (f x s)) = config s"
  shows "config (snd (bindM m f s)) = config s"
proof (cases "m s")
  case (Pair r s')
  have c: "config s' = config s" using assms(1) [of s] Pair by simp
  show ?thesis
  proof (cases r)
    case (Inl e)
    then show ?thesis using Pair c by (simp add: bindM_apply)
  next
    case (Inr x)
    then show ?thesis using Pair c assms(2) [of x s'] by (simp add: bindM_apply)
  qed
qed

lemma config_for_each:
  assumes "\<And>x s. config (snd (f x s)) = config s"
  shows "config (snd (for_each f xs s)) = config s"
proof (induction xs arbitrary: s)
  case Nil
  then show ?case by (simp add: method_apply)
next
  case (Cons x xs)
  show ?case
    by (simp only: for_each.simps) (rule config_bindM, rule assms, rule Cons.IH)
qed

lemma config_compute_loss: "config (snd (compute_loss E sb a tr tc s)) = config s"
  by (simp add: compute_loss_value)

lemma config_gradient_step: "config (snd (gradient_step E sb a tr tc s)) = config s"
  unfolding gradient_step_def
  by (rule config_bindM, rule config_compute_loss)
    (simp add: method_apply Let_def split: option.splits prod.splits)

lemma config_fit: "config (snd (fit E sb a tr tc s)) = config s"
  unfolding fit_def
  apply (rule config_bindM, rule config_compute_loss)
  apply (rule config_bindM, simp add: method_apply)
  apply (rule config_bindM, simp add: method_apply reset_network_def)
  apply (rule config_bindM)
   apply (rule config_for_each)
   apply (rule config_bindM, rule config_gradient_step, simp add: method_apply)
  apply (simp add: method_apply)
  done

lemma config_zip_batch: "config (snd (zip_batch E s)) = config s"
  by (simp add: zip_batch_def method_apply Let_def)

lemma config_run_epoch: "config (snd (run_epoch E s)) = config s"
  unfolding run_epoch_def
  apply (rule config_bindM, rule config_zip_batch)
  apply (simp only: split_paired_all prod.case)
  apply (rule config_bindM, simp add: compute_targets_frame)
  apply (simp only: split_paired_all prod.case)
  apply (rule config_fit)
  done

lemma run_with_stops:
  assumes cfg: "\<And>s. config (snd (ep s)) = config s"
  shows "\<exists>k\<le>length ks.
     (case epochs_in_sequence ep (take k ks) self of
        (Inl e, s') \<Rightarrow> run_with ep ks self = (Inl e, s')
      | (Inr deltas, s') \<Rightarrow>
          run_with ep ks self = (Inr (value_network s'), s')
          \<and> length deltas = k
          \<and> (\<forall>d\<in>set (butlast deltas). \<not> d < cfg_delta_stop (config self))
          \<and> (k < length ks \<longrightarrow> deltas \<noteq> [] \<and> last deltas < cfg_delta_stop (config self)))"
proof (induction ks arbitrary: self)
  case Nil
  show ?case by (simp add: method_apply)
next
  case (Cons a ks)
  let ?s1 = "self\<lparr>epoch := a\<rparr>"
  obtain r s2 where e: "ep ?s1 = (r, s2)" by (cases "ep ?s1")
  have c2: "config s2 = config self" using cfg [of ?s1] e by simp
  show ?case
  proof (cases r)
    case (Inl err)
    have 1: "epochs_in_sequence ep (take 1 (a # ks)) self = (Inl err, s2)"
      by (simp add: bindM_apply [of ep] e Inl)
    have 2: "run_with ep (a # ks) self = (Inl err, s2)"
      by (simp add: bindM_apply [of ep] e Inl)
    show ?thesis
      by (rule exI [of _ 1]) (simp only: 1 2, simp)
  next
    case (Inr d)
    show ?thesis
    proof (cases "d < cfg_delta_stop (config self)")
      case True
      have 1: "epochs_in_sequence ep (take 1 (a # ks)) self = (Inr [d], s2)"
        by (simp add: bindM_apply [of ep] e Inr method_apply)
      have 2: "run_with ep (a # ks) self = (Inr (value_network s2), s2)"
        using True by (simp add: bindM_apply [of ep] e Inr c2 method_apply)
      show ?thesis
        using True by (intro exI [of _ 1]) (simp only: 1 2, simp)
    next
      case False
      have 2: "run_with ep (a # ks) self = run_with ep ks s2"
        using False by (simp add: bindM_apply [of ep] e Inr c2)
      obtain k where k: "k \<le> length ks"
        and b: "(case epochs_in_sequence ep (take k ks) s2 of
                   (Inl e, s') \<Rightarrow> run_with ep ks s2 = (Inl e, s')
                 | (Inr deltas, s') \<Rightarrow>
                     run_with ep ks s2 = (Inr (value_network s'), s')
                     \<and> length deltas = k
                     \<and> (\<forall>d\<in>set (butlast deltas). \<not> d < cfg_delta_stop (config s2))
                     \<and> (k < length ks
                          \<longrightarrow> deltas \<noteq> [] \<and> last deltas < cfg_delta_stop (config s2)))"
        using Cons.IH [of s2] by (elim exE conjE) (rule that)
      obtain r' s3 where e': "epochs_in_sequence ep (take k ks) s2 = (r', s3)"
        by (cases "epochs_in_sequence ep (take k ks) s2")
      show ?thesis
      proof (cases r')
        case (Inl err)
        have 1: "epochs_in_sequence ep (take (Suc k) (a # ks)) self = (Inl err, s3)"
          by (simp add: bindM_apply [of ep] e Inr
              bindM_apply [of "epochs_in_sequence ep (take k ks)"] e' Inl)
        show ?thesis
          using k b by (intro exI [of _ "Suc k"]) (simp only: 1 2, simp add: e' Inl)
      next
        case r': (Inr ds)
        have 1: "epochs_in_sequence ep (take (Suc k) (a # ks)) self = (Inr (d # ds), s3)"
          by (simp add: bindM_apply [of ep] e Inr
              bindM_apply [of "epochs_in_sequence ep (take k ks)"] e' r' method_apply)
        show ?thesis
          using k b False
          by (intro exI [of _ "Suc k"]) (simp only: 1 2, auto simp: e' r' c2)
      qed
    qed
  qed
qed

text \<open>The loop of \<open>run\<close>: it executes the epochs \<open>0, 1, ...\<close> one after the other and
  stops after some number \<open>k\<close> of them that is at most \<open>max_ftq_epochs\<close>. When the \<open>k\<close>
  epochs return, \<open>run\<close> returns the value network as they leave it, the residuals of all
  the epochs but the last are not below \<open>delta_stop\<close>, and when \<open>k\<close> is less than
  \<open>max_ftq_epochs\<close> the residual of the last epoch is strictly below \<open>delta_stop\<close>. When
  one of the epochs raises, \<open>run\<close> raises with it.\<close>

lemma run_stops_within_max_epochs:
  "\<exists>k\<le>nat (cfg_max_ftq_epochs (config self)).
     (case epochs_in_sequence (run_epoch E) [0..<k] self of
        (Inl e, s') \<Rightarrow> run E self = (Inl e, s')
      | (Inr deltas, s') \<Rightarrow>
          run E self = (Inr (value_network s'), s')
          \<and> length deltas = k
          \<and> (\<forall>d\<in>set (butlast deltas). \<not> d < cfg_delta_stop (config self))
          \<and> (k < nat (cfg_max_ftq_epochs (config self))
               \<longrightarrow> deltas \<noteq> [] \<and> last deltas < cfg_delta_stop (config self)))"
proof -
  have r: "run E self = run_with (run_epoch E) [0..<nat (cfg_max_ftq_epochs (config self))] self"
    by (simp add: run_def)
  obtain k where k: "k \<le> length [0..<nat (cfg_max_ftq_epochs (config self))]"
    and b: "(case epochs_in_sequence (run_epoch E)
                    (take k [0..<nat (cfg_max_ftq_epochs (config self))]) self of
        (Inl e, s') \<Rightarrow>
          run_with (run_epoch E) [0..<nat (cfg_max_ftq_epochs (config self))] self = (Inl e, s')
      | (Inr deltas, s') \<Rightarrow>
          run_with (run_epoch E) [0..<nat (cfg_max_ftq_epochs (config self))] self
            = (Inr (value_network s'), s')
          \<and> length deltas = k
          \<and> (\<forall>d\<in>set (butlast deltas). \<not> d < cfg_delta_stop (config self))
          \<and> (k < length [0..<nat (cfg_max_ftq_epochs (config self))]
               \<longrightarrow> deltas \<noteq> [] \<and> last deltas < cfg_delta_stop (config self)))"
    using run_with_stops [where ep = "run_epoch E"
        and ks = "[0..<nat (cfg_max_ftq_epochs (config self))]" and self = self,
        OF config_run_epoch]
    by (elim exE conjE) (rule that)
  have t: "take k [0..<nat (cfg_max_ftq_epochs (config self))] = [0..<k]"
    using k by (simp add: take_upt)
  have k': "k \<le> nat (cfg_max_ftq_epochs (config self))" using k by simp
  show ?thesis
    using k' b unfolding r t length_upt diff_zero by (intro exI [of _ k] conjI)
qed


lemma example_zip_batch:
  "zip_batch example_externals (fitted_agent\<lparr>epoch := 0\<rparr>)
     = (Inr ([[1, 0]], [0], [1], [1], [[1]], [0], BoolTensor [False]),
        fitted_agent\<lparr>size_batch := Some (Suc 0)\<rparr>)"
  by (simp add: zip_batch_def fitted_agent_def example_agent_def example_externals_def
      Let_def method_apply)

lemma example_epoch_targets:
  "compute_targets example_externals [1] [1] [[1]] [0] (BoolTensor [False])
     (fitted_agent\<lparr>size_batch := Some (Suc 0)\<rparr>)
     = (Inr ([1], [1]), fitted_agent\<lparr>size_batch := Some (Suc 0)\<rparr>)"
  by (simp add: compute_targets_first_epoch fitted_agent_def example_agent_def)
    (simp add: clamp_target_def example_config_def)

lemma example_epoch_loss:
  "loss_of example_externals example_loss example_loss (1, 1) (Suc 0) [[1, 0]] [0] [1] [1] 1
     = Inr 0"
  by (simp add: loss_of_def gather_def example_externals_def example_loss_def Let_def)

lemma example_epoch_fit:
  "fit example_externals [[1, 0]] [0] [1] [1] (fitted_agent\<lparr>size_batch := Some (Suc 0)\<rparr>)
     = (Inr 0, fitted_agent\<lparr>size_batch := Some (Suc 0), value_network := 0\<rparr>)"
proof -
  let ?A = "fitted_agent\<lparr>size_batch := Some (Suc 0)\<rparr>"
  have l: "compute_loss example_externals [[1, 0]] [0] [1] [1] ?A = (Inr 0, ?A)"
    by (simp add: compute_loss_value)
      (simp add: fitted_agent_def example_agent_def example_config_def example_epoch_loss)
  have o: "optimizer ?A = Some ()" by (simp add: fitted_agent_def example_agent_def)
  have g: "loss_backward example_externals f w = [[2]]" for f w
    by (simp add: example_externals_def)
  have s: "optimizer_step example_externals opt w grads
             = (opt, w - sum_list (map sum_list grads))" for opt w grads
    by (simp add: example_externals_def)
  have v: "value_network ?A = 1" by (simp add: fitted_agent_def example_agent_def)
  have st: "gradient_step example_externals [[1, 0]] [0] [1] [1] ?A
              = (Inr 0, ?A\<lparr>optimizer := Some (), value_network := 0\<rparr>)"
    by (simp add: gradient_step_def
        bindM_apply [of "compute_loss example_externals [[1, 0]] [0] [1] [1]"] l o g s v
        clamp_def method_apply)
  have c: "cfg_reset_network_each_epoch (config fitted_agent) = False"
    "nat (cfg_max_nn_epoch (config fitted_agent)) = Suc 0"
    by (simp_all add: fitted_agent_def example_agent_def example_config_def)
  have "fit example_externals [[1, 0]] [0] [1] [1] ?A
          = (Inr 0, ?A\<lparr>optimizer := Some (), value_network := 0\<rparr>)"
    by (simp add: fit_def bindM_apply l c st method_apply)
  then show ?thesis by (simp add: fitted_agent_def example_agent_def)
qed

lemma example_epoch:
  "run_epoch example_externals (fitted_agent\<lparr>epoch := 0\<rparr>)
     = (Inr 0, fitted_agent\<lparr>size_batch := Some (Suc 0), value_network := 0\<rparr>)"
  by (simp add: run_epoch_def bindM_apply [of "zip_batch example_externals"]
      example_zip_batch
      bindM_apply [of "compute_targets example_externals [1] [1] [[1]] [0] (BoolTensor [False])"]
      example_epoch_targets example_epoch_fit)

lemma example_run:
  "run example_externals fitted_agent
     = (Inr 0, fitted_agent\<lparr>size_batch := Some (Suc 0), value_network := 0\<rparr>)"
proof -
  have c: "[0..<nat (cfg_max_ftq_epochs (config fitted_agent))] = [0, 1, 2]"
    "cfg_delta_stop (config fitted_agent) = 1"
    by (simp_all add: fitted_agent_def example_agent_def example_config_def upt_rec
        numeral_eq_Suc)
  show ?thesis
    by (simp add: run_def c(1)) (simp add: bindM_apply [of "run_epoch example_externals"]
        example_epoch c(2) method_apply)
qed

lemma example_epochs:
  "epochs_in_sequence (run_epoch example_externals) [0..<1] fitted_agent
     = (Inr [0], fitted_agent\<lparr>size_batch := Some (Suc 0), value_network := 0\<rparr>)"
  by (simp add: bindM_apply [of "run_epoch example_externals"] example_epoch method_apply)

lemma run_stops_early_example:
  "fst (run example_externals fitted_agent) = Inr 0
   \<and> fst (epochs_in_sequence (run_epoch example_externals) [0..<1] fitted_agent) = Inr [0]
   \<and> 1 < nat (cfg_max_ftq_epochs (config fitted_agent))
   \<and> last [0] < cfg_delta_stop (config fitted_agent)
   \<and> (\<exists>k\<le>nat (cfg_max_ftq_epochs (config fitted_agent)).
        (case epochs_in_sequence (run_epoch example_externals) [0..<k] fitted_agent of
           (Inl e, s') \<Rightarrow> run example_externals fitted_agent = (Inl e, s')
         | (Inr deltas, s') \<Rightarrow>
             run example_externals fitted_agent = (Inr (value_network s'), s')
             \<and> length deltas = k
             \<and> (\<forall>d\<in>set (butlast deltas). \<not> d < cfg_delta_stop (config fitted_agent))
             \<and> (k < nat (cfg_max_ftq_epochs (config fitted_agent))
                  \<longrightarrow> deltas \<noteq> [] \<and> last deltas < cfg_delta_stop (config fitted_agent))))"
proof -
  have c: "1 < nat (cfg_max_ftq_epochs (config fitted_agent))"
    "last [0] < cfg_delta_stop (config fitted_agent)"
    by (simp_all add: fitted_agent_def example_agent_def example_config_def)
  have r: "fst (run example_externals fitted_agent) = Inr 0"
    by (simp add: example_run)
  have e: "fst (epochs_in_sequence (run_epoch example_externals) [0..<1] fitted_agent)
             = Inr [0]"
    by (simp only: example_epochs fst_conv)
  show ?thesis
    using run_stops_within_max_epochs [of fitted_agent example_externals] r e c
    by (intro conjI) assumption+
qed


lemma memory_bindM:
  assumes "\<And>s. memory (snd (m s)) = memory s" and "\<And>x s. memory (snd (f x s)) = memory s"
  shows "memory (snd (bindM m f s)) = memory s"
proof (cases "m s")
  case (Pair r s')
  have c: "memory s' = memory s" using assms(1) [of s] Pair by simp
  show ?thesis
  proof (cases r)
    case (Inl e)
    then show ?thesis using Pair c by (simp add: bindM_apply)
  next
    case (Inr x)
    then show ?thesis using Pair c assms(2) [of x s'] by (simp add: bindM_apply)
  qed
qed

lemma memory_for_each:
  assumes "\<And>x s. memory (snd (f x s)) = memory s"
  shows "memory (snd (for_each f xs s)) = memory s"
proof (induction xs arbitrary: s)
  case Nil
  then show ?case by (simp add: method_apply)
next
  case (Cons x xs)
  show ?case
    by (simp only: for_each.simps) (rule memory_bindM, rule assms, rule Cons.IH)
qed

lemma memory_compute_loss: "memory (snd (compute_loss E sb a tr tc s)) = memory s"
  by (simp add: compute_loss_value)

lemma memory_gradient_step: "memory (snd (gradient_step E sb a tr tc s)) = memory s"
  unfolding gradient_step_def
  by (rule memory_bindM, rule memory_compute_loss)
    (simp add: method_apply Let_def split: option.splits prod.splits)

lemma memory_fit: "memory (snd (fit E sb a tr tc s)) = memory s"
  unfolding fit_def
  apply (rule memory_bindM, rule memory_compute_loss)
  apply (rule memory_bindM, simp add: method_apply)
  apply (rule memory_bindM, simp add: method_apply reset_network_def)
  apply (rule memory_bindM)
   apply (rule memory_for_each)
   apply (rule memory_bindM, rule memory_gradient_step, simp add: method_apply)
  apply (simp add: method_apply)
  done

lemma memory_zip_batch: "memory (snd (zip_batch E s)) = memory s"
  by (simp add: zip_batch_def method_apply Let_def)

lemma memory_run_epoch: "memory (snd (run_epoch E s)) = memory s"
  unfolding run_epoch_def
  apply (rule memory_bindM, rule memory_zip_batch)
  apply (simp only: split_paired_all prod.case)
  apply (rule memory_bindM, simp add: compute_targets_frame)
  apply (simp only: split_paired_all prod.case)
  apply (rule memory_fit)
  done

lemma run_epoch_empty_memory:
  "memory s = [] \<Longrightarrow> fst (run_epoch E s) = Inl TypeError"
  by (simp add: run_epoch_def zip_batch_def bindM_apply method_apply)

lemma run_epoch_later:
  assumes "epoch s \<noteq> 0" and "memory s \<noteq> []"
  shows "fst (run_epoch E s) = Inl RuntimeError"
proof -
  let ?s' = "s\<lparr>size_batch := Some (length (memory s)),
               value_network := set_normalization_params E (value_network s)
                 (tensor_mean E (map (\<lambda>t. state t @ [beta t]) (memory s)))
                 (tensor_std E (map (\<lambda>t. state t @ [beta t]) (memory s)))\<rparr>"
  have z: "zip_batch E s
             = (Inr (map (\<lambda>t. state t @ [beta t]) (memory s), map action (memory s),
                     map reward (memory s), map cost (memory s), map next_state (memory s),
                     map beta (memory s), BoolTensor (map terminal (memory s))), ?s')"
    using assms(2) by (simp add: zip_batch_def method_apply Let_def)
  have e: "epoch ?s' \<noteq> 0" using assms(1) by simp
  have t: "fst (compute_targets E (map reward (memory s)) (map cost (memory s))
                  (map next_state (memory s)) (map beta (memory s))
                  (BoolTensor (map terminal (memory s))) ?s') = Inl RuntimeError"
    by (rule compute_targets_raises) (simp add: one_minus_boolean [OF e])
  show ?thesis
    using t
    by (cases "compute_targets E (map reward (memory s)) (map cost (memory s))
                  (map next_state (memory s)) (map beta (memory s))
                  (BoolTensor (map terminal (memory s))) ?s'")
      (simp add: run_epoch_def bindM_apply [of "zip_batch E"] z bindM_apply)
qed

text \<open>
  C5. \<open>run\<close> is to execute at most \<open>max_ftq_epochs\<close> epochs, to stop early exactly when a
  residual is below \<open>delta_stop\<close> and to return the value network. In the code, whenever
  the first epoch returns a residual that is not below \<open>delta_stop\<close> and
  \<open>max_ftq_epochs\<close> is at least two, the second epoch raises \<open>RuntimeError\<close> at
  \<open>1 - terminals\<close> and \<open>run\<close> raises with it: it stops after two epochs with no residual
  below \<open>delta_stop\<close> and returns nothing.
\<close>

theorem run_raises_in_second_epoch:
  assumes "fst (run_epoch E (self\<lparr>epoch := 0\<rparr>)) = Inr delta"
    and "\<not> delta < cfg_delta_stop (config self)"
    and "1 < cfg_max_ftq_epochs (config self)"
  shows "fst (run E self) = Inl RuntimeError"
proof -
  obtain s1 where e0: "run_epoch E (self\<lparr>epoch := 0\<rparr>) = (Inr delta, s1)"
    using assms(1) by (cases "run_epoch E (self\<lparr>epoch := 0\<rparr>)") simp
  have c1: "config s1 = config self"
    using config_run_epoch [of E "self\<lparr>epoch := 0\<rparr>"] e0 by simp
  have m0: "memory self \<noteq> []"
    using run_epoch_empty_memory [of "self\<lparr>epoch := 0\<rparr>" E] assms(1) by auto
  have m1: "memory (s1\<lparr>epoch := Suc 0\<rparr>) \<noteq> []"
    using memory_run_epoch [of E "self\<lparr>epoch := 0\<rparr>"] e0 m0 by simp
  have e1: "fst (run_epoch E (s1\<lparr>epoch := Suc 0\<rparr>)) = Inl RuntimeError"
    using m1 by (intro run_epoch_later) simp_all
  obtain s2 where e1': "run_epoch E (s1\<lparr>epoch := Suc 0\<rparr>) = (Inl RuntimeError, s2)"
    using e1 by (cases "run_epoch E (s1\<lparr>epoch := Suc 0\<rparr>)") simp
  obtain rest where l: "[0..<nat (cfg_max_ftq_epochs (config self))] = 0 # 1 # rest"
    using assms(3) by (simp add: upt_rec [of 0] upt_rec [of "Suc 0"])
  have "run E self = (Inl RuntimeError, s2)"
    using assms(2)
    by (simp add: run_def l bindM_apply [of "run_epoch E"] e0 c1) (simp add: e1')
  then show ?thesis by simp
qed

lemma unfitted_first_epoch:
  "fst (run_epoch example_externals (unfitted_agent\<lparr>epoch := 0\<rparr>)) = Inr 5"
proof -
  let ?A = "unfitted_agent\<lparr>size_batch := Some (Suc 0)\<rparr>"
  have z: "zip_batch example_externals (unfitted_agent\<lparr>epoch := 0\<rparr>)
     = (Inr ([[1, 0]], [0], [3], [2], [[1]], [0], BoolTensor [False]), ?A)"
    by (simp add: zip_batch_def unfitted_agent_def example_agent_def example_externals_def
        Let_def method_apply)
  have t: "compute_targets example_externals [3] [2] [[1]] [0] (BoolTensor [False]) ?A
     = (Inr ([3], [2]), ?A)"
    by (simp add: compute_targets_first_epoch unfitted_agent_def example_agent_def)
      (simp add: clamp_target_def example_config_def)
  have f: "fst (fit example_externals [[1, 0]] [0] [3] [2] ?A) = Inr 5"
  proof -
    have l: "compute_loss example_externals [[1, 0]] [0] [3] [2] ?A = (Inr 5, ?A)"
      by (simp add: compute_loss_value)
        (simp add: unfitted_agent_def example_agent_def example_config_def example_loss_of)
    have o: "optimizer ?A = Some ()" by (simp add: unfitted_agent_def example_agent_def)
    have g: "loss_backward example_externals h w = [[2]]" for h w
      by (simp add: example_externals_def)
    have s: "optimizer_step example_externals opt w grads
               = (opt, w - sum_list (map sum_list grads))" for opt w grads
      by (simp add: example_externals_def)
    have v: "value_network ?A = 1" by (simp add: unfitted_agent_def example_agent_def)
    have st: "gradient_step example_externals [[1, 0]] [0] [3] [2] ?A
                = (Inr 5, ?A\<lparr>optimizer := Some (), value_network := 0\<rparr>)"
      by (simp add: gradient_step_def
          bindM_apply [of "compute_loss example_externals [[1, 0]] [0] [3] [2]"] l o g s v
          clamp_def method_apply)
    have c: "cfg_reset_network_each_epoch (config unfitted_agent) = False"
      "nat (cfg_max_nn_epoch (config unfitted_agent)) = Suc 0"
      by (simp_all add: unfitted_agent_def example_agent_def example_config_def)
    show ?thesis
      by (simp add: fit_def bindM_apply l c st method_apply)
  qed
  show ?thesis
    using f
    by (cases "fit example_externals [[1, 0]] [0] [3] [2] ?A")
      (simp add: run_epoch_def bindM_apply [of "zip_batch example_externals"] z
        bindM_apply [of "compute_targets example_externals [3] [2] [[1]] [0]
                           (BoolTensor [False])"] t)
qed

theorem run_raises_in_second_epoch_witness:
  "fst (run_epoch example_externals (unfitted_agent\<lparr>epoch := 0\<rparr>)) = Inr 5
   \<and> \<not> 5 < cfg_delta_stop (config unfitted_agent)
   \<and> 1 < cfg_max_ftq_epochs (config unfitted_agent)
   \<and> fst (run example_externals unfitted_agent) = Inl RuntimeError"
proof -
  have c: "\<not> 5 < cfg_delta_stop (config unfitted_agent)"
    "1 < cfg_max_ftq_epochs (config unfitted_agent)"
    by (simp_all add: unfitted_agent_def example_agent_def example_config_def)
  show ?thesis
    using run_raises_in_second_epoch [OF unfitted_first_epoch c] unfitted_first_epoch c
    by simp
qed

subsection \<open>\<open>__init__\<close>\<close>


lemma load_config_value_Inl:
  "load_config_value ev v = Inl e \<longleftrightarrow> ev v = Inl e \<and> e \<noteq> TypeError"
  by (cases "ev v") (auto simp: load_config_value_def split: error.splits)




end
